theory Spec2Isabelle
  imports Main "HOL-Library.Word"
begin

unbundle bit_operations_syntax

section \<open>ScriptFS: a shallow embedding of scriptfs.c and operations.c\<close>

text \<open>
  C strings are modelled as \<open>string\<close> (a list of bytes without the terminating NUL);
  a \<open>char *\<close> that may be the null pointer is a \<open>string option\<close>. Integers returned
  to FUSE are \<open>int\<close>: \<open>0\<close> for success, \<open>- e\<close> for the error number \<open>e\<close>.
\<close>

subsection \<open>Constants of the C library headers\<close>

definition EPERM :: int where "EPERM = 1"
definition ENOENT :: int where "ENOENT = 2"
definition EBADF :: int where "EBADF = 9"
definition EACCES :: int where "EACCES = 13"
definition EEXIST :: int where "EEXIST = 17"
definition ENOTDIR :: int where "ENOTDIR = 20"
definition EISDIR :: int where "EISDIR = 21"
definition EINVAL :: int where "EINVAL = 22"
definition EFBIG :: int where "EFBIG = 27"

type_synonym mode_t = "32 word"

definition S_IFMT :: mode_t where "S_IFMT = 0xF000"
definition S_IFDIR :: mode_t where "S_IFDIR = 0x4000"
definition S_IFREG :: mode_t where "S_IFREG = 0x8000"
definition S_IRUSR :: mode_t where "S_IRUSR = 0x100"
definition S_IWUSR :: mode_t where "S_IWUSR = 0x80"
definition S_IXUSR :: mode_t where "S_IXUSR = 0x40"
definition S_IWGRP :: mode_t where "S_IWGRP = 0x10"
definition S_IWOTH :: mode_t where "S_IWOTH = 0x2"

definition S_ISREG :: "mode_t \<Rightarrow> bool" where
  "S_ISREG m = (m AND S_IFMT = S_IFREG)"

definition S_ISDIR :: "mode_t \<Rightarrow> bool" where
  "S_ISDIR m = (m AND S_IFMT = S_IFDIR)"

definition O_RDONLY :: "32 word" where "O_RDONLY = 0"
definition O_WRONLY :: "32 word" where "O_WRONLY = 1"
definition O_RDWR :: "32 word" where "O_RDWR = 2"
definition O_ACCMODE :: "32 word" where "O_ACCMODE = 3"

subsection \<open>relative_path (scriptfs.c)\<close>

text \<open>
  \<open>relative_path\<close> returns the null pointer for a null or empty path, \<open>"."\<close> for
  \<open>"/"\<close>, and otherwise a copy of the path from its second byte on (\<open>strcpy(res, path+1)\<close>).
  The first byte is dropped whatever it is.
\<close>

fun relative_path :: "string option \<Rightarrow> string option" where
  "relative_path None = None"
| "relative_path (Some []) = None"
| "relative_path (Some (c # rest)) =
     (if c = CHR ''/'' \<and> rest = [] then Some ''.'' else Some rest)"

subsection \<open>The state the code acts on\<close>

text \<open>
  The kernel objects the server touches are kept in an explicit store. An inode holds the
  mode (file type and permission bits), the bytes and the two time stamps. The mirror
  directory is the resolution of a mirror-relative name (what the \<open>*at\<close> calls do with
  \<open>persistent.mirror_fd\<close>); the temporary directory is the resolution of the absolute
  names \<open>mkstemp\<close> makes. An open file description refers to an inode, so a file that
  was unlinked stays readable and writable through its descriptor. \<open>errno\<close> is the C
  library's variable. The server process is assumed to own the files, so the owner
  permission bits decide access. \<open>max_file_size\<close> is the largest size the file systems
  take for a file.
\<close>

type_synonym timespec = "int \<times> int"

record inode =
  i_mode :: mode_t
  i_data :: string
  i_atime :: timespec
  i_mtime :: timespec

record stat =
  st_mode :: mode_t
  st_size :: int
  st_atim :: timespec
  st_mtim :: timespec

record ofd =
  o_ino :: nat
  o_acc :: "32 word"
  o_pos :: nat

datatype ftype = T_FOLDER | T_FILE | T_SCRIPT

text \<open>
  \<open>FileStruct\<close> is declared in operations.h; the fields are the ones scriptfs.c
  reads and writes for files (\<open>type\<close>, \<open>file_handle\<close>, \<open>filename\<close>).
\<close>

record FileStruct =
  fs_type :: ftype
  file_handle :: int
  filename :: string

record fuse_file_info =
  flags :: "32 word"
  fh :: "64 word"
  direct_io :: bool

text \<open>One \<open>fork\<close>/\<open>exec\<close> made by \<open>execute_program\<close>, as the child receives it.\<close>

record exec_call =
  x_file :: "string option"
  x_args :: "string option list option"
  x_out :: int
  x_path_in :: "string option"

record world =
  inodes :: "inode list"
  mirror :: "string \<Rightarrow> nat option"
  tmpdir :: "string \<Rightarrow> nat option"
  fdt :: "ofd option list"
  errno :: int
  mkstemp_supply :: "(int + string) list"
  malloc_supply :: "64 word list"
  heap :: "64 word \<Rightarrow> FileStruct option"
  exec_log :: "exec_call list"
  max_file_size :: nat

definition stat_of :: "inode \<Rightarrow> stat" where
  "stat_of i = \<lparr>st_mode = i_mode i, st_size = int (length (i_data i)),
                st_atim = i_atime i, st_mtim = i_mtime i\<rparr>"

definition iget :: "world \<Rightarrow> nat \<Rightarrow> inode option" where
  "iget w n = (if n < length (inodes w) then Some (inodes w ! n) else None)"

definition mirror_lookup :: "world \<Rightarrow> string \<Rightarrow> (nat \<times> inode) option" where
  "mirror_lookup w rel =
     (case mirror w rel of None \<Rightarrow> None
      | Some n \<Rightarrow> (case iget w n of None \<Rightarrow> None | Some i \<Rightarrow> Some (n, i)))"

definition fd_lookup :: "world \<Rightarrow> int \<Rightarrow> ofd option" where
  "fd_lookup w fd =
     (if 0 \<le> fd \<and> nat fd < length (fdt w) then fdt w ! nat fd else None)"

definition fail :: "int \<Rightarrow> world \<Rightarrow> world" where
  "fail e w = w\<lparr>errno := e\<rparr>"

definition wants_read :: "32 word \<Rightarrow> bool" where
  "wants_read acc = (acc = O_RDONLY \<or> acc = O_RDWR)"

definition wants_write :: "32 word \<Rightarrow> bool" where
  "wants_write acc = (acc = O_WRONLY \<or> acc = O_RDWR)"

fun first_free :: "'a option list \<Rightarrow> nat" where
  "first_free [] = 0"
| "first_free (None # xs) = 0"
| "first_free (Some x # xs) = Suc (first_free xs)"

definition fd_install :: "ofd \<Rightarrow> world \<Rightarrow> int \<times> world" where
  "fd_install d w =
     (let k = first_free (fdt w)
      in (int k, w\<lparr>fdt := (if k < length (fdt w) then (fdt w)[k := Some d]
                               else fdt w @ [Some d])\<rparr>))"

subsection \<open>System calls\<close>

text \<open>
  Each call returns what the C call returns (\<open>0\<close> or a descriptor, \<open>-1\<close> on failure
  with \<open>errno\<close> set) and the new state. Output parameters are returned as options:
  \<open>None\<close> when the call wrote nothing.
\<close>

definition sys_fstatat :: "string \<Rightarrow> world \<Rightarrow> int \<times> stat option \<times> world" where
  "sys_fstatat rel w =
     (case mirror_lookup w rel of
        None \<Rightarrow> (- 1, None, fail ENOENT w)
      | Some (n, i) \<Rightarrow> (0, Some (stat_of i), w))"

definition sys_fstat :: "int \<Rightarrow> world \<Rightarrow> int \<times> stat option \<times> world" where
  "sys_fstat fd w =
     (case fd_lookup w fd of
        None \<Rightarrow> (- 1, None, fail EBADF w)
      | Some d \<Rightarrow>
          (case iget w (o_ino d) of
             None \<Rightarrow> (- 1, None, fail EBADF w)
           | Some i \<Rightarrow> (0, Some (stat_of i), w)))"

definition sys_faccessat_X :: "string \<Rightarrow> world \<Rightarrow> int \<times> world" where
  "sys_faccessat_X rel w =
     (case mirror_lookup w rel of
        None \<Rightarrow> (- 1, fail ENOENT w)
      | Some (n, i) \<Rightarrow>
          (if i_mode i AND S_IXUSR \<noteq> 0 then (0, w) else (- 1, fail EACCES w)))"

definition sys_openat :: "string \<Rightarrow> 32 word \<Rightarrow> world \<Rightarrow> int \<times> world" where
  "sys_openat rel fl w =
     (case mirror_lookup w rel of
        None \<Rightarrow> (- 1, fail ENOENT w)
      | Some (n, i) \<Rightarrow>
          (let acc = fl AND O_ACCMODE in
           if acc = O_ACCMODE then (- 1, fail EINVAL w)
           else if (wants_read acc \<and> i_mode i AND S_IRUSR = 0)
                 \<or> (wants_write acc \<and> i_mode i AND S_IWUSR = 0)
             then (- 1, fail EACCES w)
           else if S_ISDIR (i_mode i) \<and> wants_write acc then (- 1, fail EISDIR w)
           else fd_install \<lparr>o_ino = n, o_acc = acc, o_pos = 0\<rparr> w))"

definition sys_close :: "int \<Rightarrow> world \<Rightarrow> int \<times> world" where
  "sys_close fd w =
     (case fd_lookup w fd of
        None \<Rightarrow> (- 1, fail EBADF w)
      | Some d \<Rightarrow> (0, w\<lparr>fdt := (fdt w)[nat fd := None]\<rparr>))"

text \<open>
  \<open>mkstemp\<close> replaces the six trailing \<open>X\<close> of the template with characters of its
  choice, creates that file with mode 0600 and opens it read-write. The choice, or the
  failure, is taken from \<open>mkstemp_supply\<close>.
\<close>

definition sys_mkstemp :: "string \<Rightarrow> world \<Rightarrow> int \<times> string \<times> world" where
  "sys_mkstemp template w =
     (let n = length template in
      if n < 6 \<or> drop (n - 6) template \<noteq> ''XXXXXX'' then (- 1, template, fail EINVAL w)
      else
        (case mkstemp_supply w of
           [] \<Rightarrow> (- 1, template, fail EEXIST w)
         | Inl e # rest \<Rightarrow> (- 1, template, fail e (w\<lparr>mkstemp_supply := rest\<rparr>))
         | Inr suffix # rest \<Rightarrow>
             (let name = take (n - 6) template @ suffix;
                  w1 = w\<lparr>mkstemp_supply := rest\<rparr>
              in if length suffix \<noteq> 6 \<or> tmpdir w name \<noteq> None
                 then (- 1, template, fail EEXIST w1)
                 else
                   (let ino = length (inodes w1);
                        w2 = w1\<lparr>inodes := inodes w1 @
                                   [\<lparr>i_mode = S_IFREG OR S_IRUSR OR S_IWUSR, i_data = [],
                                     i_atime = (0, 0), i_mtime = (0, 0)\<rparr>],
                                 tmpdir := (tmpdir w1)(name \<mapsto> ino)\<rparr>;
                        (fd, w3) = fd_install \<lparr>o_ino = ino, o_acc = O_RDWR, o_pos = 0\<rparr> w2
                    in (fd, name, w3)))))"

definition sys_unlink :: "string \<Rightarrow> world \<Rightarrow> int \<times> world" where
  "sys_unlink name w =
     (case tmpdir w name of
        None \<Rightarrow> (- 1, fail ENOENT w)
      | Some n \<Rightarrow> (0, w\<lparr>tmpdir := (tmpdir w)(name := None)\<rparr>))"

definition set_inode :: "nat \<Rightarrow> inode \<Rightarrow> world \<Rightarrow> world" where
  "set_inode n i w = w\<lparr>inodes := (inodes w)[n := i]\<rparr>"

definition chmod_inode :: "mode_t \<Rightarrow> inode \<Rightarrow> inode" where
  "chmod_inode m i = i\<lparr>i_mode := (i_mode i AND S_IFMT) OR (m AND 0xFFF)\<rparr>"

definition sys_fchmodat :: "string \<Rightarrow> mode_t \<Rightarrow> world \<Rightarrow> int \<times> world" where
  "sys_fchmodat rel m w =
     (case mirror_lookup w rel of
        None \<Rightarrow> (- 1, fail ENOENT w)
      | Some (n, i) \<Rightarrow> (0, set_inode n (chmod_inode m i) w))"

definition sys_fchmod :: "int \<Rightarrow> mode_t \<Rightarrow> world \<Rightarrow> int \<times> world" where
  "sys_fchmod fd m w =
     (case fd_lookup w fd of
        None \<Rightarrow> (- 1, fail EBADF w)
      | Some d \<Rightarrow>
          (case iget w (o_ino d) of
             None \<Rightarrow> (- 1, fail EBADF w)
           | Some i \<Rightarrow> (0, set_inode (o_ino d) (chmod_inode m i) w)))"

definition sys_utimensat :: "string \<Rightarrow> timespec \<times> timespec \<Rightarrow> world \<Rightarrow> int \<times> world" where
  "sys_utimensat rel ts w =
     (case mirror_lookup w rel of
        None \<Rightarrow> (- 1, fail ENOENT w)
      | Some (n, i) \<Rightarrow> (0, set_inode n (i\<lparr>i_atime := fst ts, i_mtime := snd ts\<rparr>) w))"

definition sys_futimens :: "int \<Rightarrow> timespec \<times> timespec \<Rightarrow> world \<Rightarrow> int \<times> world" where
  "sys_futimens fd ts w =
     (case fd_lookup w fd of
        None \<Rightarrow> (- 1, fail EBADF w)
      | Some d \<Rightarrow>
          (case iget w (o_ino d) of
             None \<Rightarrow> (- 1, fail EBADF w)
           | Some i \<Rightarrow>
               (0, set_inode (o_ino d) (i\<lparr>i_atime := fst ts, i_mtime := snd ts\<rparr>) w)))"

definition resize :: "nat \<Rightarrow> string \<Rightarrow> string" where
  "resize n d = take n d @ replicate (n - length d) (CHR 0x00)"

definition sys_ftruncate :: "int \<Rightarrow> int \<Rightarrow> world \<Rightarrow> int \<times> world" where
  "sys_ftruncate fd sz w =
     (case fd_lookup w fd of
        None \<Rightarrow> (- 1, fail EBADF w)
      | Some d \<Rightarrow>
          (case iget w (o_ino d) of
             None \<Rightarrow> (- 1, fail EBADF w)
           | Some i \<Rightarrow>
               (if \<not> wants_write (o_acc d) \<or> \<not> S_ISREG (i_mode i) \<or> sz < 0
                then (- 1, fail EINVAL w)
                else if max_file_size w < nat sz then (- 1, fail EFBIG w)
                else (0, set_inode (o_ino d) (i\<lparr>i_data := resize (nat sz) (i_data i)\<rparr>) w))))"

definition sys_lseek_set :: "int \<Rightarrow> int \<Rightarrow> world \<Rightarrow> int \<times> world" where
  "sys_lseek_set fd off w =
     (case fd_lookup w fd of
        None \<Rightarrow> (- 1, fail EBADF w)
      | Some d \<Rightarrow>
          (if off < 0 \<or> max_file_size w < nat off then (- 1, fail EINVAL w)
           else (off, w\<lparr>fdt := (fdt w)[nat fd := Some (d\<lparr>o_pos := nat off\<rparr>)]\<rparr>)))"

text \<open>
  \<open>put_bytes\<close> stores the bytes at the position of the open file description \<open>d\<close> of
  descriptor \<open>fd\<close> (a gap before the position is filled with NUL bytes) and advances the
  position. \<open>write\<close> of no bytes changes nothing and returns 0; at or past the size limit
  it fails with \<open>EFBIG\<close>; otherwise it stores the bytes up to the limit and returns how
  many it stored.
\<close>

definition put_bytes :: "int \<Rightarrow> ofd \<Rightarrow> inode \<Rightarrow> string \<Rightarrow> world \<Rightarrow> world" where
  "put_bytes fd d i buf w =
     (let p = o_pos d;
          old = i_data i;
          new = resize p old @ buf @ drop (p + length buf) old;
          w1 = set_inode (o_ino d) (i\<lparr>i_data := new\<rparr>) w
      in w1\<lparr>fdt := (fdt w1)[nat fd := Some (d\<lparr>o_pos := p + length buf\<rparr>)]\<rparr>)"

definition sys_write :: "int \<Rightarrow> string \<Rightarrow> world \<Rightarrow> int \<times> world" where
  "sys_write fd buf w =
     (case fd_lookup w fd of
        None \<Rightarrow> (- 1, fail EBADF w)
      | Some d \<Rightarrow>
          (case iget w (o_ino d) of
             None \<Rightarrow> (- 1, fail EBADF w)
           | Some i \<Rightarrow>
               (if \<not> wants_write (o_acc d) then (- 1, fail EBADF w)
                else if buf = [] then (0, w)
                else if max_file_size w \<le> o_pos d then (- 1, fail EFBIG w)
                else
                  (let b = take (max_file_size w - o_pos d) buf
                   in (int (length b), put_bytes fd d i b w)))))"

subsection \<open>Procedures (procedures.h) and the persistent configuration\<close>

text \<open>
  A \<open>func\<close> field is a function pointer: a datatype naming the function it points to.
  \<open>args\<close> is the \<open>char **\<close> array without its terminating null pointer; a slot can
  itself hold a null pointer (\<open>None\<close>). \<open>filearg\<close> points into \<open>args\<close> at the slot of
  the \<open>!\<close> token: the index of that slot. A compiled regular expression is the set of
  strings \<open>regexec\<close> accepts.
\<close>

datatype test_func =
  F_test_true | F_test_false | F_test_shell | F_test_executable
  | F_test_shell_executable | F_test_pattern | F_test_program

datatype program_func = F_program_shell | F_program_external

record Test =
  t_func :: "test_func option"
  t_path :: "string option"
  t_args :: "string option list option"
  t_filearg :: "nat option"
  t_filter :: bool
  t_compiled :: "(string \<Rightarrow> bool) option"

record Program =
  p_func :: program_func
  p_path :: "string option"
  p_args :: "string option list option"
  p_filearg :: "nat option"
  p_filter :: bool

record Procedure =
  program :: Program
  test :: "Test option"

record Persistent =
  procs :: "Procedure list"
  return_real_size :: bool
  tmp_template :: string

subsection \<open>execute_program (operations.c)\<close>

text \<open>
  The child process (\<open>call_program\<close> and the program it executes) is outside the
  embedding: a function \<open>X\<close> gives, for the files as they are at the \<open>fork\<close>, the
  program path, the argument array and the bytes on standard input (\<open>None\<close> when standard
  input is closed), the exit status (\<open>None\<close> when the child did not exit normally) and
  the bytes the child wrote to standard output. The child is assumed not to change the
  mirror or the temporary directory itself, and \<open>fork\<close> is assumed to succeed.
\<close>

type_synonym fsview = "inode list \<times> (string \<Rightarrow> nat option) \<times> (string \<Rightarrow> nat option)"

type_synonym child =
  "fsview \<Rightarrow> string option \<Rightarrow> string option list option \<Rightarrow> string option
     \<Rightarrow> nat option \<times> string"

definition fsview :: "world \<Rightarrow> fsview" where
  "fsview w = (inodes w, mirror w, tmpdir w)"

text \<open>Everything \<open>read\<close> returns from the descriptor's position to the end of file.\<close>

definition read_all :: "int \<Rightarrow> world \<Rightarrow> string \<times> world" where
  "read_all fd w =
     (case fd_lookup w fd of
        None \<Rightarrow> ([], fail EBADF w)
      | Some d \<Rightarrow>
          (case iget w (o_ino d) of
             None \<Rightarrow> ([], fail EBADF w)
           | Some i \<Rightarrow>
               (if S_ISDIR (i_mode i) then ([], fail EISDIR w)
                else (drop (o_pos d) (i_data i),
                      w\<lparr>fdt := (fdt w)[nat fd :=
                            Some (d\<lparr>o_pos := max (o_pos d) (length (i_data i))\<rparr>)]\<rparr>))))"

text \<open>
  The parent's side of the pipe: the file \<open>path_in\<close> is opened (and never closed) and
  streamed to the child; when it cannot be opened the pipe is closed empty.
\<close>

definition feed_stdin :: "string option \<Rightarrow> world \<Rightarrow> string option \<times> world" where
  "feed_stdin path_in w =
     (case path_in of
        None \<Rightarrow> (None, w)
      | Some p \<Rightarrow>
          (let (fd, w1) = sys_openat p O_RDONLY w in
           if fd < 0 then (Some [], w1)
           else (let (bytes, w2) = read_all fd w1 in (Some bytes, w2))))"

text \<open>
  The child's standard output, \<open>dup2\<close>-ed from \<open>out\<close>: the child writes through the
  same open file description, and its errors are its own. The temporary file system is
  assumed to take all the child writes.
\<close>

definition child_output :: "int \<Rightarrow> string \<Rightarrow> world \<Rightarrow> world" where
  "child_output out bytes w =
     (if out = 0 \<or> bytes = [] then w
      else
        (case fd_lookup w out of
           None \<Rightarrow> w
         | Some d \<Rightarrow>
             (case iget w (o_ino d) of
                None \<Rightarrow> w
              | Some i \<Rightarrow> (if \<not> wants_write (o_acc d) then w else put_bytes out d i bytes w))))"

definition execute_program ::
  "child \<Rightarrow> string option \<Rightarrow> string option list option \<Rightarrow> int \<Rightarrow> string option
     \<Rightarrow> world \<Rightarrow> int \<times> world" where
  "execute_program X file args out path_in w =
     (let (stdin, w1) = feed_stdin path_in w;
          (status, bytes) = X (fsview w) file args stdin;
          w2 = child_output out bytes w1;
          w3 = w2\<lparr>exec_log := exec_log w2 @
                  [\<lparr>x_file = file, x_args = args, x_out = out, x_path_in = path_in\<rparr>]\<rparr>
      in (case status of Some c \<Rightarrow> (int (c mod 256), w3) | None \<Rightarrow> (1, w3)))"

subsection \<open>temp_copy (operations.c)\<close>

text \<open>The copy loop: buffers of \<open>0x400\<close> bytes are written to \<open>fout\<close> one by one.\<close>

function copy_loop :: "int \<Rightarrow> string \<Rightarrow> world \<Rightarrow> world" where
  "copy_loop fout src w =
     (if src = [] then w
      else copy_loop fout (drop 1024 src) (snd (sys_write fout (take 1024 src) w)))"
  by pat_completeness auto
termination
  by (relation "measure (\<lambda>(fout, src, w). length src)") auto

declare copy_loop.simps [simp del]

definition temp_copy :: "Persistent \<Rightarrow> string \<Rightarrow> world \<Rightarrow> string option \<times> world" where
  "temp_copy P file w =
     (let (fin, w1) = sys_openat file O_RDONLY w in
      if fin = - 1 then (None, w1)
      else
        (let (fout, res, w2) = sys_mkstemp (tmp_template P) w1 in
         if fout = - 1 then (None, snd (sys_close fin w2))
         else
           (let (src, w3) = read_all fin w2;
                w4 = copy_loop fout src w3;
                (code, st, w5) = sys_fstat fin w4;
                w6 = (case st of
                        None \<Rightarrow> w5
                      | Some s \<Rightarrow>
                          (if code = - 1 then w5
                           else snd (sys_fchmod fout (st_mode s AND (S_IRUSR OR S_IXUSR)) w5)));
                w7 = snd (sys_close fin w6);
                w8 = snd (sys_close fout w7)
            in (Some res, w8))))"

subsection \<open>Test functions (operations.c)\<close>

definition test_true :: "Test \<Rightarrow> string \<Rightarrow> world \<Rightarrow> int \<times> world" where
  "test_true t file w = (1, w)"

definition test_false :: "Test \<Rightarrow> string \<Rightarrow> world \<Rightarrow> int \<times> world" where
  "test_false t file w = (0, w)"

definition test_shell :: "Test \<Rightarrow> string \<Rightarrow> world \<Rightarrow> int \<times> world" where
  "test_shell t file w =
     (let (fd, w1) = sys_openat file O_RDONLY w in
      if fd < 0 then (0, fail EBADF w1)
      else
        (let (bytes, w2) = read_all fd w1;
             w3 = snd (sys_close fd w2)
         in (if length bytes < 2 \<or> bytes ! 0 \<noteq> CHR ''#'' \<or> bytes ! 1 \<noteq> CHR ''!''
             then (0, w3) else (1, w3))))"

definition test_executable :: "Test \<Rightarrow> string \<Rightarrow> world \<Rightarrow> int \<times> world" where
  "test_executable t file w =
     (let (code, w1) = sys_faccessat_X file w in ((if code = 0 then 1 else 0), w1))"

definition test_shell_executable :: "Test \<Rightarrow> string \<Rightarrow> world \<Rightarrow> int \<times> world" where
  "test_shell_executable t file w =
     (let (r, w1) = test_shell t file w in
      if r \<noteq> 0 then (1, w1)
      else (let (r2, w2) = test_executable t file w1 in ((if r2 \<noteq> 0 then 1 else 0), w2)))"

definition test_pattern :: "Test \<Rightarrow> string \<Rightarrow> world \<Rightarrow> int \<times> world" where
  "test_pattern t file w =
     (case t_compiled t of
        None \<Rightarrow> (0, w)
      | Some accepts \<Rightarrow> ((if accepts file then 1 else 0), w))"

text \<open>
  \<open>test_program\<close> and \<open>program_external\<close> store the file name in the slot
  \<open>*filearg\<close> of the shared array before the call and overwrite the slot after it (with
  an empty string, resp. the null pointer). The slot is written before every use and read
  by nothing else, so the embedding builds the array of the call and leaves the stored
  one as it is.
\<close>

definition subst_filearg ::
  "string option list option \<Rightarrow> nat option \<Rightarrow> string option \<Rightarrow> string option list option" where
  "subst_filearg args filearg v =
     (case args of
        None \<Rightarrow> None
      | Some a \<Rightarrow> (case filearg of None \<Rightarrow> Some a | Some i \<Rightarrow> Some (a[i := v])))"

definition test_program :: "child \<Rightarrow> Test \<Rightarrow> string \<Rightarrow> world \<Rightarrow> int \<times> world" where
  "test_program X t file w =
     (let args = subst_filearg (t_args t) (t_filearg t) (Some file);
          f = (if t_filter t then Some file else None);
          (code, w1) = execute_program X (t_path t) args 0 f w
      in ((if code = 0 then 1 else 0), w1))"

fun call_test :: "child \<Rightarrow> test_func \<Rightarrow> Test \<Rightarrow> string \<Rightarrow> world \<Rightarrow> int \<times> world" where
  "call_test X F_test_true t file w = test_true t file w"
| "call_test X F_test_false t file w = test_false t file w"
| "call_test X F_test_shell t file w = test_shell t file w"
| "call_test X F_test_executable t file w = test_executable t file w"
| "call_test X F_test_shell_executable t file w = test_shell_executable t file w"
| "call_test X F_test_pattern t file w = test_pattern t file w"
| "call_test X F_test_program t file w = test_program X t file w"

subsection \<open>get_script (operations.c)\<close>

fun get_script :: "child \<Rightarrow> Procedure list \<Rightarrow> string \<Rightarrow> world \<Rightarrow> Procedure option \<times> world" where
  "get_script X [] file w = (None, w)"
| "get_script X (p # ps) file w =
     (case test p of
        None \<Rightarrow> get_script X ps file w
      | Some t \<Rightarrow>
          (case t_func t of
             None \<Rightarrow> get_script X ps file w
           | Some f \<Rightarrow>
               (let (r, w1) = call_test X f t file w in
                if r \<noteq> 0 then (Some p, w1) else get_script X ps file w1)))"

subsection \<open>Execution functions (operations.c)\<close>

definition program_shell ::
  "Persistent \<Rightarrow> child \<Rightarrow> Program \<Rightarrow> string \<Rightarrow> int \<Rightarrow> world \<Rightarrow> int \<times> world" where
  "program_shell P X prog file fd w =
     (let (tmpfil, w1) = temp_copy P file w in
      case tmpfil of
        None \<Rightarrow> (- errno w1, w1)
      | Some name \<Rightarrow>
          (let (code, w2) = execute_program X (Some name) (Some [Some name]) fd None w1;
               w3 = snd (sys_unlink name w2)
           in (code, w3)))"

definition program_external ::
  "Persistent \<Rightarrow> child \<Rightarrow> Program \<Rightarrow> string \<Rightarrow> int \<Rightarrow> world \<Rightarrow> int \<times> world" where
  "program_external P X prog file fd w =
     (let has_slot = (p_args prog \<noteq> None \<and> p_filearg prog \<noteq> None);
          (tmp, w1) = (if has_slot then temp_copy P file w else (None, w));
          args = (if has_slot then subst_filearg (p_args prog) (p_filearg prog) tmp
                  else p_args prog);
          f = (if p_filter prog \<and> p_filearg prog = None then Some file else None);
          (code, w2) = execute_program X (p_path prog) args fd f w1;
          w3 = (if has_slot
                then (case tmp of None \<Rightarrow> w2 | Some name \<Rightarrow> snd (sys_unlink name w2))
                else w2)
      in (code, w3))"

fun call_program_func ::
  "Persistent \<Rightarrow> child \<Rightarrow> program_func \<Rightarrow> Program \<Rightarrow> string \<Rightarrow> int \<Rightarrow> world \<Rightarrow> int \<times> world" where
  "call_program_func P X F_program_shell prog file fd w = program_shell P X prog file fd w"
| "call_program_func P X F_program_external prog file fd w = program_external P X prog file fd w"

subsection \<open>run_script (scriptfs.c)\<close>

definition run_script ::
  "Persistent \<Rightarrow> child \<Rightarrow> string \<Rightarrow> Procedure \<Rightarrow> fuse_file_info option \<Rightarrow> world
     \<Rightarrow> int \<times> fuse_file_info option \<times> world" where
  "run_script P X relative proc fi w =
     (let (handle, temp_filename, w1) = sys_mkstemp (tmp_template P) w in
      if handle \<le> 0 then (- errno w1, fi, w1)
      else
        (let w2 = snd (sys_unlink temp_filename w1);
             w3 = snd (call_program_func P X (p_func (program proc)) (program proc)
                         relative handle w2)
         in (handle, map_option (\<lambda>i. i\<lparr>direct_io := True\<rparr>) fi, w3)))"

subsection \<open>File system operations (scriptfs.c)\<close>

text \<open>
  What an operation hands back to FUSE. \<open>Fault\<close> stands for the paths on which the code
  passes on or dereferences a null pointer (the relative path of an empty path, a null
  \<open>fi\<close>, a failed \<open>malloc\<close>, a handle that does not point to a \<open>FileStruct\<close>); what
  happens then is outside the embedding.
\<close>

datatype ret = Ret int | Fault

definition W_BITS :: mode_t where
  "W_BITS = S_IWUSR OR S_IWGRP OR S_IWOTH"

text \<open>The conversion of the 64-bit \<open>fi->fh\<close> to the \<open>int\<close> a descriptor argument takes.\<close>

definition fd_of_fh :: "64 word \<Rightarrow> int" where
  "fd_of_fh h = sint (ucast h :: 32 word)"

definition after :: "int \<Rightarrow> world \<Rightarrow> ret" where
  "after code w = Ret (if code = 0 then 0 else - errno w)"

definition sfs_getattr ::
  "Persistent \<Rightarrow> child \<Rightarrow> string option \<Rightarrow> fuse_file_info option \<Rightarrow> world
     \<Rightarrow> ret \<times> stat option \<times> fuse_file_info option \<times> world" where
  "sfs_getattr P X path fi w =
     (case path of
        Some p \<Rightarrow>
          (case relative_path (Some p) of
             None \<Rightarrow> (Fault, None, fi, w)
           | Some relative \<Rightarrow>
               (let (code, stbuf, w1) = sys_fstatat relative w in
                case stbuf of
                  None \<Rightarrow> (after code w1, None, fi, w1)
                | Some st \<Rightarrow>
                    (if code = 0 \<and> S_ISREG (st_mode st) then
                       (let (proc, w2) = get_script X (procs P) relative w1 in
                        case proc of
                          None \<Rightarrow> (after code w2, Some st, fi, w2)
                        | Some pr \<Rightarrow>
                            (let st1 = st\<lparr>st_mode := st_mode st AND NOT W_BITS\<rparr> in
                             if return_real_size P then
                               (let (handle, fi1, w3) = run_script P X relative pr fi w2;
                                    (rstat_code, realsize, w4) = sys_fstat handle w3;
                                    st2 = (case realsize of
                                             None \<Rightarrow> st1
                                           | Some r \<Rightarrow>
                                               (if rstat_code = 0
                                                then st1\<lparr>st_size := st_size r\<rparr> else st1));
                                    w5 = snd (sys_close handle w4)
                                in (after code w5, Some st2, fi1, w5))
                             else (after code w2, Some st1, fi, w2)))
                     else (after code w1, Some st, fi, w1))))
      | None \<Rightarrow>
          (case fi of
             None \<Rightarrow> (Ret (- EBADF), None, fi, w)
           | Some i \<Rightarrow>
               (let (code, stbuf, w1) = sys_fstat (fd_of_fh (fh i)) w
                in (after code w1, stbuf, fi, w1))))"

definition sfs_chmod ::
  "Persistent \<Rightarrow> child \<Rightarrow> string option \<Rightarrow> mode_t \<Rightarrow> fuse_file_info option \<Rightarrow> world
     \<Rightarrow> ret \<times> world" where
  "sfs_chmod P X path mode fi w =
     (case path of
        Some p \<Rightarrow>
          (case relative_path (Some p) of
             None \<Rightarrow> (Fault, w)
           | Some relative \<Rightarrow>
               (let (code, stbuf, w1) = sys_fstatat relative w;
                    (strip, w2) =
                      (case stbuf of
                         None \<Rightarrow> (False, w1)
                       | Some st \<Rightarrow>
                           (if code = 0 \<and> S_ISREG (st_mode st) \<and> mode AND W_BITS \<noteq> 0
                            then (let (proc, w') = get_script X (procs P) relative w1
                                  in (proc \<noteq> None, w'))
                            else (False, w1)));
                    mode1 = (if strip then mode AND NOT W_BITS else mode);
                    (code1, w3) = sys_fchmodat relative mode1 w2
                in (after code1 w3, w3)))
      | None \<Rightarrow>
          (case fi of
             None \<Rightarrow> (Ret (- EBADF), w)
           | Some i \<Rightarrow>
               (let (code, w1) = sys_fchmod (fd_of_fh (fh i)) mode w
                in (after code w1, w1))))"

text \<open>
  In \<open>sfs_truncate\<close> the descriptor is kept in a \<open>uint64_t\<close>, so the test \<open>fd<0\<close>
  never holds: after a failed \<open>openat\<close> the calls \<open>ftruncate\<close> and \<open>close\<close> are made
  on \<open>-1\<close>.
\<close>

definition sfs_truncate ::
  "Persistent \<Rightarrow> child \<Rightarrow> string option \<Rightarrow> int \<Rightarrow> fuse_file_info option \<Rightarrow> world
     \<Rightarrow> ret \<times> world" where
  "sfs_truncate P X path sz fi w =
     (let finish = (\<lambda>fd w0.
            (let (code, w1) = sys_ftruncate fd sz w0;
                 w2 = snd (sys_close fd w1)
             in (after code w2, w2)))
      in
      case path of
        Some p \<Rightarrow>
          (case relative_path (Some p) of
             None \<Rightarrow> (Fault, w)
           | Some relative \<Rightarrow>
               (let (code, stbuf, w1) = sys_fstatat relative w;
                    (script, w2) =
                      (case stbuf of
                         None \<Rightarrow> (False, w1)
                       | Some st \<Rightarrow>
                           (if code = 0 \<and> S_ISREG (st_mode st)
                            then (let (proc, w') = get_script X (procs P) relative w1
                                  in (proc \<noteq> None, w'))
                            else (False, w1)))
                in if script then (Ret (- EACCES), w2)
                   else (let (fd, w3) = sys_openat relative O_WRONLY w2 in finish fd w3)))
      | None \<Rightarrow>
          (case fi of
             None \<Rightarrow> (Ret (- EBADF), w)
           | Some i \<Rightarrow> finish (fd_of_fh (fh i)) w))"

definition sfs_utimens ::
  "Persistent \<Rightarrow> child \<Rightarrow> string option \<Rightarrow> timespec \<times> timespec \<Rightarrow> fuse_file_info option
     \<Rightarrow> world \<Rightarrow> ret \<times> world" where
  "sfs_utimens P X path ts fi w =
     (case path of
        Some p \<Rightarrow>
          (case relative_path (Some p) of
             None \<Rightarrow> (Fault, w)
           | Some relative \<Rightarrow>
               (let (code, stbuf, w1) = sys_fstatat relative w;
                    (script, w2) =
                      (case stbuf of
                         None \<Rightarrow> (False, w1)
                       | Some st \<Rightarrow>
                           (if code = 0 \<and> S_ISREG (st_mode st)
                            then (let (proc, w') = get_script X (procs P) relative w1
                                  in (proc \<noteq> None, w'))
                            else (False, w1)))
                in if script then (Ret (- EACCES), w2)
                   else (let (code1, w3) = sys_utimensat relative ts w2
                         in (after code1 w3, w3))))
      | None \<Rightarrow>
          (case fi of
             None \<Rightarrow> (Fault, w)
           | Some i \<Rightarrow>
               (let (code, w1) = sys_futimens (fd_of_fh (fh i)) ts w
                in (after code w1, w1))))"

text \<open>\<open>malloc\<close> of a \<open>FileStruct\<close>; the address, or the failure, comes from \<open>malloc_supply\<close>.\<close>

definition sys_malloc :: "world \<Rightarrow> 64 word \<times> world" where
  "sys_malloc w =
     (case malloc_supply w of
        [] \<Rightarrow> (0, w)
      | a # rest \<Rightarrow>
          (if a = 0 \<or> heap w a \<noteq> None then (0, w\<lparr>malloc_supply := rest\<rparr>)
           else (a, w\<lparr>malloc_supply := rest\<rparr>)))"

text \<open>
  \<open>FILENAME_MAX_LENGTH\<close> is a macro of operations.h: the parameter \<open>L\<close> of \<open>sfs_open\<close>.
\<close>

definition sfs_open ::
  "Persistent \<Rightarrow> child \<Rightarrow> nat \<Rightarrow> string \<Rightarrow> fuse_file_info \<Rightarrow> world
     \<Rightarrow> ret \<times> fuse_file_info \<times> world" where
  "sfs_open P X L path fi w =
     (case relative_path (Some path) of
        None \<Rightarrow> (Fault, fi, w)
      | Some relative \<Rightarrow>
          (let (proc, w1) = get_script X (procs P) relative w;
               finish = (\<lambda>typ handle fi0 w0.
                  (let (a, w') = sys_malloc w0 in
                   if a = 0 then (Fault, fi0, w')
                   else (Ret 0, fi0\<lparr>fh := a\<rparr>,
                         w'\<lparr>heap := (heap w')(a \<mapsto>
                              \<lparr>fs_type = (if typ = (1::int) then T_SCRIPT else T_FILE),
                               file_handle = handle,
                               filename = take (L - 1) relative\<rparr>)\<rparr>)))
           in
           case proc of
             Some pr \<Rightarrow>
               (if flags fi AND O_WRONLY \<noteq> 0 \<or> flags fi AND O_RDWR \<noteq> 0
                then (Ret (- EACCES), fi, w1)
                else
                  (let (handle, fi1, w2) = run_script P X relative pr (Some fi) w1;
                       fi2 = (case fi1 of None \<Rightarrow> fi | Some i \<Rightarrow> i)
                   in if handle \<le> 0 then (Ret handle, fi2, w2)
                      else finish 1 handle fi2 w2))
           | None \<Rightarrow>
               (let (handle, w2) = sys_openat relative (flags fi) w1 in
                if handle \<le> 0 then (Ret (- errno w2), fi, w2)
                else finish 2 handle (fi\<lparr>direct_io := False\<rparr>) w2)))"


subsection \<open>What the tests decide\<close>

text \<open>
  The outcome of each test function as a predicate on the files. The lemmas below show
  that the test functions compute these predicates and leave the files as they are.
\<close>

definition readable_data :: "world \<Rightarrow> string \<Rightarrow> string option" where
  "readable_data w rel =
     (case mirror_lookup w rel of
        None \<Rightarrow> None
      | Some (n, i) \<Rightarrow>
          (if i_mode i AND S_IRUSR = 0 then None
           else if S_ISDIR (i_mode i) then Some [] else Some (i_data i)))"

definition shell_magic :: "world \<Rightarrow> string \<Rightarrow> bool" where
  "shell_magic w rel =
     (case readable_data w rel of
        None \<Rightarrow> False
      | Some bytes \<Rightarrow> 2 \<le> length bytes \<and> bytes ! 0 = CHR ''#'' \<and> bytes ! 1 = CHR ''!'')"

definition executable :: "world \<Rightarrow> string \<Rightarrow> bool" where
  "executable w rel =
     (case mirror_lookup w rel of None \<Rightarrow> False | Some (n, i) \<Rightarrow> i_mode i AND S_IXUSR \<noteq> 0)"

definition stdin_bytes :: "world \<Rightarrow> string option \<Rightarrow> string option" where
  "stdin_bytes w path_in =
     (case path_in of
        None \<Rightarrow> None
      | Some p \<Rightarrow> (case readable_data w p of None \<Rightarrow> Some [] | Some d \<Rightarrow> Some d))"

definition program_accepts :: "child \<Rightarrow> Test \<Rightarrow> string \<Rightarrow> world \<Rightarrow> bool" where
  "program_accepts X t file w =
     (case fst (X (fsview w) (t_path t)
                  (subst_filearg (t_args t) (t_filearg t) (Some file))
                  (stdin_bytes w (if t_filter t then Some file else None))) of
        Some c \<Rightarrow> c mod 256 = 0
      | None \<Rightarrow> False)"

fun test_holds :: "child \<Rightarrow> test_func \<Rightarrow> Test \<Rightarrow> string \<Rightarrow> world \<Rightarrow> bool" where
  "test_holds X F_test_true t file w = True"
| "test_holds X F_test_false t file w = False"
| "test_holds X F_test_shell t file w = shell_magic w file"
| "test_holds X F_test_executable t file w = executable w file"
| "test_holds X F_test_shell_executable t file w = (shell_magic w file \<or> executable w file)"
| "test_holds X F_test_pattern t file w =
     (case t_compiled t of None \<Rightarrow> False | Some accepts \<Rightarrow> accepts file)"
| "test_holds X F_test_program t file w = program_accepts X t file w"

text \<open>
  A procedure matches a file when its test is there, has a function, and the function
  returns a nonzero value: the condition of the loop in \<open>get_script\<close>.
\<close>

definition test_matches :: "child \<Rightarrow> string \<Rightarrow> world \<Rightarrow> Procedure \<Rightarrow> bool" where
  "test_matches X file w p =
     (case test p of
        None \<Rightarrow> False
      | Some t \<Rightarrow>
          (case t_func t of None \<Rightarrow> False | Some f \<Rightarrow> fst (call_test X f t file w) \<noteq> 0))"

subsection \<open>The temp artifact and what a program writes into it\<close>

text \<open>
  \<open>art_ok h a d i w\<close>: in \<open>w\<close> the descriptor \<open>h\<close> is open with description \<open>d\<close> and
  inode \<open>a\<close> is \<open>i\<close>. \<open>off_art k a w\<close>: descriptor \<open>k\<close>, if open, is not on inode \<open>a\<close>.
  \<open>new_inode\<close> is the file \<open>mkstemp\<close> creates and \<open>art_fd\<close> the description of its
  descriptor at a position. \<open>program_stdout\<close> is what the child writes to standard output
  when the procedure's program function is called in state \<open>w\<close>: nothing when
  \<open>program_shell\<close> cannot make its copy, otherwise the output of the child for the files,
  arguments and standard input it is started with.
\<close>

definition art_ok :: "int \<Rightarrow> nat \<Rightarrow> ofd \<Rightarrow> inode \<Rightarrow> world \<Rightarrow> bool" where
  "art_ok h a d i w = (fd_lookup w h = Some d \<and> iget w a = Some i)"

definition off_art :: "int \<Rightarrow> nat \<Rightarrow> world \<Rightarrow> bool" where
  "off_art k a w = (\<forall>e. fd_lookup w k = Some e \<longrightarrow> o_ino e \<noteq> a)"

definition new_inode :: inode where
  "new_inode = \<lparr>i_mode = S_IFREG OR S_IRUSR OR S_IWUSR, i_data = [],
                 i_atime = (0, 0), i_mtime = (0, 0)\<rparr>"

definition art_fd :: "nat \<Rightarrow> nat \<Rightarrow> ofd" where
  "art_fd a n = \<lparr>o_ino = a, o_acc = O_RDWR, o_pos = n\<rparr>"

definition program_stdout :: "Persistent \<Rightarrow> child \<Rightarrow> Program \<Rightarrow> string \<Rightarrow> world \<Rightarrow> string" where
  "program_stdout P X prog file w =
     (case p_func prog of
        F_program_shell \<Rightarrow>
          (case temp_copy P file w of
             (None, w1) \<Rightarrow> []
           | (Some name, w1) \<Rightarrow> snd (X (fsview w1) (Some name) (Some [Some name]) None))
      | F_program_external \<Rightarrow>
          (let has_slot = (p_args prog \<noteq> None \<and> p_filearg prog \<noteq> None);
               (tmp, w1) = (if has_slot then temp_copy P file w else (None, w));
               args = (if has_slot then subst_filearg (p_args prog) (p_filearg prog) tmp
                       else p_args prog);
               f = (if p_filter prog \<and> p_filearg prog = None then Some file else None)
           in snd (X (fsview w1) (p_path prog) args (stdin_bytes w1 f))))"

subsection \<open>A small mirror for concrete runs\<close>

text \<open>
  The mirror directory (mode 0755) holds the directory \<open>d\<close> (the same inode, for
  brevity) and the regular file \<open>s\<close> (mode 0644). Descriptors 0, 1 and 2 are the
  terminal. The child of the examples writes \<open>Hi\<close> and exits with status 1.
\<close>

definition ex_dir :: inode where
  "ex_dir = \<lparr>i_mode = S_IFDIR OR 0x1ED, i_data = [], i_atime = (0, 0), i_mtime = (0, 0)\<rparr>"

definition ex_file :: inode where
  "ex_file = \<lparr>i_mode = S_IFREG OR 0x1A4, i_data = ''#!x'', i_atime = (0, 0), i_mtime = (0, 0)\<rparr>"

definition ex_tty :: inode where
  "ex_tty = \<lparr>i_mode = 0x2190, i_data = [], i_atime = (0, 0), i_mtime = (0, 0)\<rparr>"

definition ex_std :: ofd where
  "ex_std = \<lparr>o_ino = 2, o_acc = O_RDWR, o_pos = 0\<rparr>"

definition w_ex :: world where
  "w_ex = \<lparr>inodes = [ex_dir, ex_file, ex_tty],
           mirror = [''.'' \<mapsto> 0, ''d'' \<mapsto> 0, ''s'' \<mapsto> 1],
           tmpdir = Map.empty,
           fdt = [Some ex_std, Some ex_std, Some ex_std],
           errno = 0,
           mkstemp_supply = [Inr ''aaaaaa'', Inr ''bbbbbb''],
           malloc_supply = [0x7F0000001000],
           heap = Map.empty,
           exec_log = [],
           max_file_size = 2 ^ 40\<rparr>"

definition X_ex :: child where
  "X_ex v file args stdin = (Some 1, ''Hi'')"

definition ex_test :: "test_func \<Rightarrow> Test" where
  "ex_test f = \<lparr>t_func = Some f, t_path = None, t_args = None, t_filearg = None,
               t_filter = False, t_compiled = None\<rparr>"

definition ex_prog :: "string \<Rightarrow> Program" where
  "ex_prog name = \<lparr>p_func = F_program_external, p_path = Some name,
                   p_args = Some [Some name, None], p_filearg = Some 1, p_filter = False\<rparr>"

definition ex_proc :: "string \<Rightarrow> test_func \<Rightarrow> Procedure" where
  "ex_proc name f = \<lparr>program = ex_prog name, test = Some (ex_test f)\<rparr>"

definition P_ex :: "bool \<Rightarrow> Persistent" where
  "P_ex l = \<lparr>procs = [ex_proc ''/bin/a'' F_test_false, ex_proc ''/bin/b'' F_test_true],
             return_real_size = l, tmp_template = ''/dev/shm/sfs.XXXXXX''\<rparr>"

definition fi_ro :: fuse_file_info where
  "fi_ro = \<lparr>flags = O_RDONLY, fh = 0, direct_io = False\<rparr>"

text \<open>The handle and the state after \<open>s\<close> has been opened read-only as a script.\<close>

definition fi_opened :: fuse_file_info where
  "fi_opened = fst (snd (sfs_open (P_ex False) X_ex 256 ''/s'' fi_ro w_ex))"

definition w_opened :: world where
  "w_opened = snd (snd (sfs_open (P_ex False) X_ex 256 ''/s'' fi_ro w_ex))"

text \<open>
  The same mirror with \<open>s\<close> write-only (mode 0200), and the procedure of \<open>-p '/bin/b !'\<close>:
  the command line is the program and the test. The child \<open>X_ok\<close> exits with status 0.
\<close>

definition ex_unreadable :: inode where
  "ex_unreadable = \<lparr>i_mode = S_IFREG OR S_IWUSR, i_data = ''#!x'',
                     i_atime = (0, 0), i_mtime = (0, 0)\<rparr>"

definition w_unreadable :: world where
  "w_unreadable = w_ex\<lparr>inodes := [ex_dir, ex_unreadable, ex_tty]\<rparr>"

definition X_ok :: child where
  "X_ok v file args stdin = (Some 0, ''Hi'')"

definition ex_cmd_test :: Test where
  "ex_cmd_test = \<lparr>t_func = Some F_test_program, t_path = Some ''/bin/b'',
                   t_args = Some [Some ''/bin/b'', None], t_filearg = Some 1,
                   t_filter = False, t_compiled = None\<rparr>"

definition ex_cmd_proc :: Procedure where
  "ex_cmd_proc = \<lparr>program = ex_prog ''/bin/b'', test = Some ex_cmd_test\<rparr>"

definition P_cmd :: Persistent where
  "P_cmd = \<lparr>procs = [ex_cmd_proc], return_real_size = False,
             tmp_template = ''/dev/shm/sfs.XXXXXX''\<rparr>"





section \<open>Properties of the tests and of the classifier\<close>

lemma first_free_le: "first_free xs \<le> length xs"
  by (induction xs rule: first_free.induct) auto

lemma first_free_None: "first_free xs < length xs \<Longrightarrow> xs ! first_free xs = None"
  by (induction xs rule: first_free.induct) auto

lemma fd_install_lookup:
  "fd_install d w = (k, w1) \<Longrightarrow> 0 \<le> k \<and> fd_lookup w1 k = Some d \<and> fsview w1 = fsview w"
  using first_free_le [of "fdt w"]
  by (auto simp: fd_install_def Let_def fd_lookup_def fsview_def nth_append)

lemma fd_install_iget [simp]: "iget (snd (fd_install d w)) n = iget w n"
  by (simp add: fd_install_def Let_def iget_def)

lemma openat_rdonly:
  "sys_openat rel O_RDONLY w = (fd, w1) \<Longrightarrow>
     fsview w1 = fsview w \<and>
     (case mirror_lookup w rel of
        None \<Rightarrow> fd = - 1
      | Some (n, i) \<Rightarrow>
          if i_mode i AND S_IRUSR = 0 then fd = - 1
          else 0 \<le> fd \<and> fd_lookup w1 fd = Some \<lparr>o_ino = n, o_acc = O_RDONLY, o_pos = 0\<rparr>)"
  apply (auto simp: sys_openat_def Let_def fail_def fsview_def O_RDONLY_def O_ACCMODE_def
      wants_read_def wants_write_def O_RDWR_def O_WRONLY_def
      split: option.splits prod.splits if_splits dest!: fd_install_lookup)
  done

lemma mirror_lookup_fsview: "fsview w1 = fsview w \<Longrightarrow> mirror_lookup w1 rel = mirror_lookup w rel"
  by (auto simp: fsview_def mirror_lookup_def iget_def split: option.splits)

lemma iget_fsview: "fsview w1 = fsview w \<Longrightarrow> iget w1 n = iget w n"
  by (simp add: fsview_def iget_def)

lemma readable_data_fsview: "fsview w1 = fsview w \<Longrightarrow> readable_data w1 rel = readable_data w rel"
  using mirror_lookup_fsview [of w1 w rel] by (simp add: readable_data_def)

lemma mirror_lookup_iget: "mirror_lookup w rel = Some (n, i) \<Longrightarrow> iget w n = Some i"
  by (auto simp: mirror_lookup_def split: option.splits)

lemma read_all_fsview [simp]: "fsview (snd (read_all fd w)) = fsview w"
  by (auto simp: read_all_def fsview_def fail_def split: option.splits)

lemma sys_close_fsview [simp]: "fsview (snd (sys_close fd w)) = fsview w"
  by (auto simp: sys_close_def fsview_def fail_def split: option.splits)

lemma fail_fsview [simp]: "fsview (fail e w) = fsview w"
  by (simp add: fail_def fsview_def)

lemma sys_faccessat_X_fsview [simp]: "fsview (snd (sys_faccessat_X rel w)) = fsview w"
  by (auto simp: sys_faccessat_X_def split: option.splits)

lemma read_all_fresh:
  "fd_lookup w fd = Some \<lparr>o_ino = n, o_acc = a, o_pos = 0\<rparr> \<Longrightarrow> iget w n = Some i \<Longrightarrow>
     fst (read_all fd w) = (if S_ISDIR (i_mode i) then [] else i_data i)"
  by (simp add: read_all_def)

lemma test_shell_result:
  assumes a: "test_shell t file w = (r, w1)"
  shows "fsview w1 = fsview w \<and> r = (if shell_magic w file then 1 else 0)"
proof -
  obtain fd wo where o: "sys_openat file O_RDONLY w = (fd, wo)" by fastforce
  obtain bytes wr where rd: "read_all fd wo = (bytes, wr)" by fastforce
  have fv: "fsview wo = fsview w" using openat_rdonly [OF o] by simp
  have fvr: "fsview wr = fsview wo" using read_all_fsview [of fd wo] rd by simp
  have unf: "(r, w1) = (if fd < 0 then (0, fail EBADF wo)
      else (if length bytes < 2 \<or> bytes ! 0 \<noteq> CHR ''#'' \<or> bytes ! 1 \<noteq> CHR ''!''
            then (0, snd (sys_close fd wr)) else (1, snd (sys_close fd wr))))"
    unfolding a [symmetric] by (simp add: test_shell_def o rd Let_def)
  have w1: "fsview w1 = fsview w"
  proof (cases "fd < 0")
    case True with unf fv show ?thesis by simp
  next
    case False
    with unf have "w1 = snd (sys_close fd wr)" by (simp split: if_splits)
    with fv fvr show ?thesis by simp
  qed
  have res: "r = (if shell_magic w file then 1 else 0)"
  proof (cases "readable_data w file")
    case None
    then have "fd = - 1" using openat_rdonly [OF o]
      by (auto simp: readable_data_def split: option.splits if_splits)
    with unf None show ?thesis by (simp add: shell_magic_def)
  next
    case (Some d)
    then obtain n i where ml: "mirror_lookup w file = Some (n, i)"
      and rdb: "i_mode i AND S_IRUSR \<noteq> 0"
      and d: "d = (if S_ISDIR (i_mode i) then [] else i_data i)"
      by (auto simp: readable_data_def split: option.splits if_splits)
    from openat_rdonly [OF o] ml rdb have fd: "0 \<le> fd"
      and lk: "fd_lookup wo fd = Some \<lparr>o_ino = n, o_acc = O_RDONLY, o_pos = 0\<rparr>"
      by auto
    have ig: "iget wo n = Some i"
      using mirror_lookup_iget [OF ml] iget_fsview [OF fv] by simp
    have "bytes = d"
      using read_all_fresh [OF lk ig] rd d by simp
    with unf fd Some show ?thesis
      by (auto simp: shell_magic_def split: if_splits)
  qed
  from w1 res show ?thesis by simp
qed

lemma test_executable_result:
  "test_executable t file w = (r, w1) \<Longrightarrow>
     fsview w1 = fsview w \<and> r = (if executable w file then 1 else 0)"
  by (auto simp: test_executable_def sys_faccessat_X_def executable_def Let_def
      split: option.splits if_splits)

lemma feed_stdin_result:
  assumes a: "feed_stdin path_in w = (s, w1)"
  shows "fsview w1 = fsview w \<and> s = stdin_bytes w path_in"
proof (cases path_in)
  case None
  with a show ?thesis by (simp add: feed_stdin_def stdin_bytes_def)
next
  case (Some p)
  obtain fd wo where o: "sys_openat p O_RDONLY w = (fd, wo)" by fastforce
  obtain bytes wr where rd: "read_all fd wo = (bytes, wr)" by fastforce
  have fv: "fsview wo = fsview w" using openat_rdonly [OF o] by simp
  have fvr: "fsview wr = fsview wo" using read_all_fsview [of fd wo] rd by simp
  have unf: "(s, w1) = (if fd < 0 then (Some [], wo) else (Some bytes, wr))"
    unfolding a [symmetric] by (simp add: feed_stdin_def Some o rd)
  have w1: "fsview w1 = fsview w" using unf fv fvr by (simp split: if_splits)
  have res: "s = stdin_bytes w path_in"
  proof (cases "readable_data w p")
    case None
    then have "fd = - 1" using openat_rdonly [OF o]
      by (auto simp: readable_data_def split: option.splits if_splits)
    with unf None Some show ?thesis by (simp add: stdin_bytes_def)
  next
    case (Some d)
    then obtain n i where ml: "mirror_lookup w p = Some (n, i)"
      and rdb: "i_mode i AND S_IRUSR \<noteq> 0"
      and d: "d = (if S_ISDIR (i_mode i) then [] else i_data i)"
      by (auto simp: readable_data_def split: option.splits if_splits)
    from openat_rdonly [OF o] ml rdb have fd: "0 \<le> fd"
      and lk: "fd_lookup wo fd = Some \<lparr>o_ino = n, o_acc = O_RDONLY, o_pos = 0\<rparr>"
      by auto
    have ig: "iget wo n = Some i"
      using mirror_lookup_iget [OF ml] iget_fsview [OF fv] by simp
    have "bytes = d"
      using read_all_fresh [OF lk ig] rd d by simp
    with unf fd Some \<open>path_in = Some p\<close> show ?thesis
      by (auto simp: stdin_bytes_def split: if_splits)
  qed
  from w1 res show ?thesis by simp
qed

lemma execute_program_out0:
  assumes a: "execute_program X file args 0 path_in w = (code, w1)"
  shows "fsview w1 = fsview w \<and>
         code = (case fst (X (fsview w) file args (stdin_bytes w path_in)) of
                   Some c \<Rightarrow> int (c mod 256) | None \<Rightarrow> 1)"
proof -
  obtain s wf where f: "feed_stdin path_in w = (s, wf)" by fastforce
  note fr = feed_stdin_result [OF f]
  obtain status bytes where x: "X (fsview w) file args s = (status, bytes)" by fastforce
  have "(code, w1) = (case status of
          Some c \<Rightarrow> (int (c mod 256), wf\<lparr>exec_log := exec_log wf @
                  [\<lparr>x_file = file, x_args = args, x_out = 0, x_path_in = path_in\<rparr>]\<rparr>)
        | None \<Rightarrow> (1, wf\<lparr>exec_log := exec_log wf @
                  [\<lparr>x_file = file, x_args = args, x_out = 0, x_path_in = path_in\<rparr>]\<rparr>))"
    unfolding a [symmetric] by (simp add: execute_program_def f x child_output_def Let_def)
  with fr x show ?thesis by (auto simp: fsview_def split: option.splits)
qed

lemma test_program_result:
  assumes a: "test_program X t file w = (r, w1)"
  shows "fsview w1 = fsview w \<and> r = (if program_accepts X t file w then 1 else 0)"
proof -
  obtain code we where e: "execute_program X (t_path t)
      (subst_filearg (t_args t) (t_filearg t) (Some file)) 0
      (if t_filter t then Some file else None) w = (code, we)" by fastforce
  have "(r, w1) = ((if code = 0 then 1 else 0), we)"
    unfolding a [symmetric] by (simp add: test_program_def e)
  with execute_program_out0 [OF e] show ?thesis
    by (auto simp: program_accepts_def split: option.splits)
qed

lemma test_holds_fsview:
  assumes "fsview w1 = fsview w"
  shows "test_holds X f t file w1 = test_holds X f t file w"
proof -
  have rd: "\<And>rel. readable_data w1 rel = readable_data w rel"
    using readable_data_fsview [OF assms] .
  have ml: "\<And>rel. mirror_lookup w1 rel = mirror_lookup w rel"
    using mirror_lookup_fsview [OF assms] .
  show ?thesis
    by (cases f) (simp_all add: shell_magic_def executable_def program_accepts_def
        stdin_bytes_def rd ml assms)
qed

lemma test_shell_executable_result:
  assumes a: "test_shell_executable t file w = (r, w1)"
  shows "fsview w1 = fsview w \<and> (r \<noteq> 0) = (shell_magic w file \<or> executable w file)"
proof -
  obtain r1 wa where s: "test_shell t file w = (r1, wa)" by fastforce
  obtain r2 wb where e: "test_executable t file wa = (r2, wb)" by fastforce
  note sr = test_shell_result [OF s]
  note er = test_executable_result [OF e]
  have ex: "executable wa file = executable w file"
    using mirror_lookup_fsview [of wa w "file"] sr
    by (simp add: executable_def)
  have "(r, w1) = (if r1 \<noteq> 0 then (1, wa) else ((if r2 \<noteq> 0 then 1 else 0), wb))"
    unfolding a [symmetric] by (simp add: test_shell_executable_def s e)
  with sr er ex show ?thesis by (auto split: if_splits)
qed

lemma call_test_result:
  assumes a: "call_test X f t file w = (r, w1)"
  shows "fsview w1 = fsview w \<and> (r \<noteq> 0) = test_holds X f t file w"
proof (cases f)
  case F_test_true with a show ?thesis by (auto simp: test_true_def)
next
  case F_test_false with a show ?thesis by (auto simp: test_false_def)
next
  case F_test_shell
  with a have "test_shell t file w = (r, w1)" by simp
  from test_shell_result [OF this] F_test_shell show ?thesis by simp
next
  case F_test_executable
  with a have "test_executable t file w = (r, w1)" by simp
  from test_executable_result [OF this] F_test_executable show ?thesis by auto
next
  case F_test_shell_executable
  with a have "test_shell_executable t file w = (r, w1)" by simp
  from test_shell_executable_result [OF this] F_test_shell_executable show ?thesis by simp
next
  case F_test_pattern
  with a show ?thesis by (auto simp: test_pattern_def split: option.splits if_splits)
next
  case F_test_program
  with a have "test_program X t file w = (r, w1)" by simp
  from test_program_result [OF this] F_test_program show ?thesis by auto
qed

lemma test_matches_fsview:
  assumes "fsview w1 = fsview w"
  shows "test_matches X file w1 p = test_matches X file w p"
proof -
  have "\<And>f t. (fst (call_test X f t file w1) \<noteq> 0) = (fst (call_test X f t file w) \<noteq> 0)"
  proof -
    fix f t
    obtain r1 wa where 1: "call_test X f t file w1 = (r1, wa)" by fastforce
    obtain r2 wb where 2: "call_test X f t file w = (r2, wb)" by fastforce
    from call_test_result [OF 1] call_test_result [OF 2] test_holds_fsview [OF assms, of X f t "file"]
    show "(fst (call_test X f t file w1) \<noteq> 0) = (fst (call_test X f t file w) \<noteq> 0)"
      using 1 2 by simp
  qed
  then show ?thesis by (simp add: test_matches_def split: option.splits)
qed

lemma get_script_find:
  "fst (get_script X ps file w) = find (test_matches X file w) ps
   \<and> fsview (snd (get_script X ps file w)) = fsview w"
proof (induction ps arbitrary: w)
  case Nil
  show ?case by simp
next
  case (Cons p ps)
  show ?case
  proof (cases "test p")
    case None
    with Cons [of w] show ?thesis by (simp add: test_matches_def)
  next
    case (Some t)
    show ?thesis
    proof (cases "t_func t")
      case None
      with Some Cons [of w] show ?thesis by (simp add: test_matches_def)
    next
      case (Some f)
      obtain r w1 where c: "call_test X f t file w = (r, w1)" by fastforce
      note cr = call_test_result [OF c]
      have fv: "fsview w1 = fsview w" using cr by simp
      have m: "test_matches X file w p = (r \<noteq> 0)"
        using c \<open>test p = Some t\<close> Some by (simp add: test_matches_def)
      have eq: "find (test_matches X file w1) ps = find (test_matches X file w) ps"
        using test_matches_fsview [OF fv] by (metis (mono_tags, lifting) find_cong)
      show ?thesis
      proof (cases "r \<noteq> 0")
        case True
        with c m fv \<open>test p = Some t\<close> Some show ?thesis by simp
      next
        case False
        with c m \<open>test p = Some t\<close> Some Cons [of w1] eq fv show ?thesis by simp
      qed
    qed
  qed
qed

subsection \<open>Facts about the example mirror\<close>

lemmas sys_defs = sys_fstatat_def sys_fstat_def sys_faccessat_X_def sys_openat_def sys_close_def
  sys_mkstemp_def sys_unlink_def set_inode_def chmod_inode_def sys_fchmodat_def sys_fchmod_def
  sys_utimensat_def sys_futimens_def resize_def sys_ftruncate_def sys_lseek_set_def sys_write_def put_bytes_def
  sys_malloc_def fd_install_def fd_lookup_def iget_def mirror_lookup_def fail_def stat_of_def
  wants_read_def wants_write_def read_all_def feed_stdin_def child_output_def
  execute_program_def temp_copy_def copy_loop.simps

lemmas const_defs = EFBIG_def O_RDONLY_def O_WRONLY_def O_RDWR_def O_ACCMODE_def S_IFMT_def S_IFDIR_def
  S_IFREG_def S_IRUSR_def S_IWUSR_def S_IXUSR_def S_IWGRP_def S_IWOTH_def S_ISREG_def S_ISDIR_def
  W_BITS_def

lemmas ex_defs = w_ex_def ex_dir_def ex_file_def ex_tty_def ex_std_def X_ex_def ex_test_def
  ex_prog_def ex_proc_def P_ex_def

lemma w_ex_s: "mirror_lookup w_ex ''s'' = Some (1, ex_file)"
  by (simp add: mirror_lookup_def w_ex_def iget_def)

lemma w_ex_d: "mirror_lookup w_ex ''d'' = Some (0, ex_dir)"
  by (simp add: mirror_lookup_def w_ex_def iget_def)

lemma ex_file_reg: "S_ISREG (i_mode ex_file)"
  by (simp add: S_ISREG_def ex_file_def S_IFREG_def S_IFMT_def)

lemma ex_dir_not_reg: "\<not> S_ISREG (i_mode ex_dir)"
  by (simp add: S_ISREG_def ex_dir_def S_IFREG_def S_IFMT_def S_IFDIR_def)

lemma P_ex_match:
  "get_script X_ex (procs (P_ex l)) rel w = (Some (ex_proc ''/bin/b'' F_test_true), w)"
  by (simp add: P_ex_def ex_proc_def ex_test_def test_true_def test_false_def)

lemma get_script_cases:
  obtains pr w2 where "get_script X ps rel w = (pr, w2)" "fsview w2 = fsview w"
    "pr = fst (get_script X ps rel w)"
  using get_script_find [of X ps "rel" w] by (cases "get_script X ps rel w") auto

lemma set_inode_lookup:
  "mirror_lookup w rel = Some (n, i) \<Longrightarrow> mirror_lookup (set_inode n j w) rel = Some (n, j)"
  by (auto simp: mirror_lookup_def set_inode_def iget_def split: option.splits if_splits)

lemma and_strip:
  fixes x y k v :: "'a::len word"
  shows "(x OR ((y AND NOT v) AND k)) AND v = x AND v"
  by (rule bit_eqI) (auto simp: bit_and_iff bit_or_iff bit_not_iff)

lemma no_write_bits: "((a AND S_IFMT) OR ((m AND NOT W_BITS) AND 0xFFF)) AND W_BITS = 0"
proof -
  have 1: "S_IFMT AND W_BITS = 0"
    by (simp add: S_IFMT_def W_BITS_def S_IWUSR_def S_IWGRP_def S_IWOTH_def)
  have "((a AND S_IFMT) OR ((m AND NOT W_BITS) AND 0xFFF)) AND W_BITS
      = (a AND S_IFMT) AND W_BITS"
    by (rule and_strip)
  also have "\<dots> = a AND (S_IFMT AND W_BITS)" by (simp add: ac_simps)
  finally show ?thesis by (simp add: 1)
qed

section \<open>The temp artifact through a run of the program\<close>

lemma fd_lookup_Some: "fd_lookup w k = Some e \<Longrightarrow> 0 \<le> k \<and> nat k < length (fdt w)"
  by (auto simp: fd_lookup_def split: if_splits)

lemma fd_install_frame:
  assumes ok: "art_ok h a d i w" and ins: "fd_install e w = (k, w1)"
  shows "art_ok h a d i w1 \<and> k \<noteq> h \<and> 0 \<le> k \<and> fd_lookup w1 k = Some e
         \<and> inodes w1 = inodes w \<and> tmpdir w1 = tmpdir w \<and> mirror w1 = mirror w"
proof -
  let ?f = "first_free (fdt w)"
  have le: "?f \<le> length (fdt w)" by (rule first_free_le)
  from ok have h: "0 \<le> h" "nat h < length (fdt w)" "fdt w ! nat h = Some d"
    by (auto simp: art_ok_def fd_lookup_def split: if_splits)
  have ne: "?f \<noteq> nat h"
    using first_free_None [of "fdt w"] h le by (cases "?f < length (fdt w)") auto
  from ins have k: "k = int ?f"
    and w1: "w1 = w\<lparr>fdt := (if ?f < length (fdt w) then (fdt w)[?f := Some e]
                               else fdt w @ [Some e])\<rparr>"
    by (auto simp: fd_install_def Let_def)
  have "k \<noteq> h" using ne k h by auto
  moreover have "fd_lookup w1 h = Some d"
    using h ne by (auto simp: w1 fd_lookup_def nth_append)
  moreover have "iget w1 a = iget w a" by (simp add: w1 iget_def)
  moreover have "fd_lookup w1 k = Some e"
    using le by (auto simp: w1 k fd_lookup_def nth_append)
  ultimately show ?thesis using ok k by (simp add: art_ok_def w1)
qed

lemma fail_frame [simp]: "art_ok h a d i (fail e w) = art_ok h a d i w"
  by (simp add: art_ok_def fail_def fd_lookup_def iget_def)

lemma sys_openat_frame:
  assumes ok: "art_ok h a d i w" and o: "sys_openat rel fl w = (k, w1)"
  shows "art_ok h a d i w1 \<and> k \<noteq> h \<and> inodes w1 = inodes w \<and> tmpdir w1 = tmpdir w
         \<and> mirror w1 = mirror w"
proof -
  from ok have h: "0 \<le> h" by (auto simp: art_ok_def dest: fd_lookup_Some)
  show ?thesis
  proof (cases "k = - 1")
    case True
    with o ok h show ?thesis
      by (auto simp: sys_openat_def Let_def fail_def art_ok_def fd_lookup_def iget_def
          split: option.splits if_splits dest!: fd_install_frame [OF ok])
  next
    case False
    with o obtain e where "fd_install e w = (k, w1)"
      by (auto simp: sys_openat_def Let_def split: option.splits if_splits)
    from fd_install_frame [OF ok this] show ?thesis by simp
  qed
qed

lemma sys_close_frame:
  assumes ok: "art_ok h a d i w" and ne: "k \<noteq> h"
  shows "art_ok h a d i (snd (sys_close k w))"
proof -
  from ok have h: "0 \<le> h" "nat h < length (fdt w)"
    by (auto simp: art_ok_def dest: fd_lookup_Some)
  show ?thesis using ok ne h
    by (auto simp: sys_close_def art_ok_def fd_lookup_def iget_def fail_def
        split: option.splits if_splits)
qed

lemma sys_unlink_frame [simp]: "art_ok h a d i (snd (sys_unlink name w)) = art_ok h a d i w"
  by (auto simp: sys_unlink_def art_ok_def fd_lookup_def iget_def fail_def split: option.splits)

lemma read_all_frame:
  assumes ok: "art_ok h a d i w" and ne: "k \<noteq> h"
  shows "art_ok h a d i (snd (read_all k w))"
proof -
  from ok have h: "0 \<le> h" "nat h < length (fdt w)"
    by (auto simp: art_ok_def dest: fd_lookup_Some)
  show ?thesis using ok ne h
    by (auto simp: read_all_def art_ok_def fd_lookup_def iget_def fail_def
        split: option.splits if_splits)
qed

lemma art_ok_supply [simp]:
  "art_ok h a d i (w\<lparr>mkstemp_supply := x\<rparr>) = art_ok h a d i w"
  by (simp add: art_ok_def fd_lookup_def iget_def)

lemma art_ok_tmpdir [simp]:
  "art_ok h a d i (w\<lparr>tmpdir := x\<rparr>) = art_ok h a d i w"
  by (simp add: art_ok_def fd_lookup_def iget_def)

lemma art_ok_log [simp]:
  "art_ok h a d i (w\<lparr>exec_log := x\<rparr>) = art_ok h a d i w"
  by (simp add: art_ok_def fd_lookup_def iget_def)

lemma art_ok_append:
  "art_ok h a d i w \<Longrightarrow> art_ok h a d i (w\<lparr>inodes := inodes w @ [j]\<rparr>)"
  by (auto simp: art_ok_def fd_lookup_def iget_def nth_append split: if_splits)

lemma sys_mkstemp_unfold:
  assumes m: "sys_mkstemp t w = (k, name, w1)" and k: "k \<noteq> - 1"
  shows "\<exists>suffix rest. mkstemp_supply w = Inr suffix # rest
           \<and> name = take (length t - 6) t @ suffix \<and> tmpdir w name = None
           \<and> fd_install \<lparr>o_ino = length (inodes w), o_acc = O_RDWR, o_pos = 0\<rparr>
                (w\<lparr>mkstemp_supply := rest, inodes := inodes w @ [new_inode],
                    tmpdir := (tmpdir w)(name \<mapsto> length (inodes w))\<rparr>) = (k, w1)"
  using m k
  by (auto simp: sys_mkstemp_def Let_def new_inode_def split: if_splits list.splits sum.splits
      prod.splits)

lemma sys_mkstemp_fail:
  assumes m: "sys_mkstemp t w = (k, name, w1)" and k: "k = - 1"
  shows "\<exists>e x. w1 = fail e (w\<lparr>mkstemp_supply := x\<rparr>)"
proof -
  have neg: "\<And>e v k' w'. fd_install e v = (k', w') \<Longrightarrow> k' \<noteq> - 1"
    by (auto simp: fd_install_def Let_def)
  have self: "w\<lparr>mkstemp_supply := mkstemp_supply w\<rparr> = w" by simp
  show ?thesis
  proof (cases "length t < 6 \<or> drop (length t - 6) t \<noteq> ''XXXXXX''")
    case True
    with m have "w1 = fail EINVAL w" by (auto simp: sys_mkstemp_def Let_def)
    with self show ?thesis by metis
  next
    case False
    show ?thesis
    proof (cases "mkstemp_supply w")
      case Nil
      with m False have "w1 = fail EEXIST w" by (auto simp: sys_mkstemp_def Let_def)
      with self show ?thesis by metis
    next
      case (Cons s rest)
      show ?thesis
      proof (cases s)
        case (Inl e)
        with m False Cons show ?thesis by (auto simp: sys_mkstemp_def Let_def)
      next
        case (Inr suffix)
        show ?thesis
        proof (cases "length suffix \<noteq> 6 \<or> tmpdir w (take (length t - 6) t @ suffix) \<noteq> None")
          case True
          with m False Cons Inr show ?thesis
            by (auto simp: sys_mkstemp_def Let_def)
        next
          case c: False
          with m False Cons Inr k show ?thesis
            by (auto simp: sys_mkstemp_def Let_def split: prod.splits dest: neg)
        qed
      qed
    qed
  qed
qed

lemma sys_mkstemp_new:
  assumes m: "sys_mkstemp t w = (k, name, w1)" and k: "k \<noteq> - 1"
  shows "0 \<le> k \<and> art_ok k (length (inodes w))
           \<lparr>o_ino = length (inodes w), o_acc = O_RDWR, o_pos = 0\<rparr> new_inode w1
         \<and> tmpdir w name = None \<and> tmpdir w1 = (tmpdir w)(name \<mapsto> length (inodes w))
         \<and> inodes w1 = inodes w @ [new_inode] \<and> mirror w1 = mirror w"
proof -
  from sys_mkstemp_unfold [OF m k] obtain suffix rest where
    nm: "tmpdir w name = None" and
    ins: "fd_install \<lparr>o_ino = length (inodes w), o_acc = O_RDWR, o_pos = 0\<rparr>
                (w\<lparr>mkstemp_supply := rest, inodes := inodes w @ [new_inode],
                    tmpdir := (tmpdir w)(name \<mapsto> length (inodes w))\<rparr>) = (k, w1)"
    by blast
  from fd_install_lookup [OF ins] have "0 \<le> k"
    and lk: "fd_lookup w1 k = Some \<lparr>o_ino = length (inodes w), o_acc = O_RDWR, o_pos = 0\<rparr>"
    and fv: "fsview w1 = fsview (w\<lparr>mkstemp_supply := rest, inodes := inodes w @ [new_inode],
                    tmpdir := (tmpdir w)(name \<mapsto> length (inodes w))\<rparr>)"
    by auto
  from fv have "inodes w1 = inodes w @ [new_inode]"
    "tmpdir w1 = (tmpdir w)(name \<mapsto> length (inodes w))" "mirror w1 = mirror w"
    by (auto simp: fsview_def)
  with lk nm \<open>0 \<le> k\<close> show ?thesis by (simp add: art_ok_def iget_def)
qed

lemma sys_mkstemp_frame:
  assumes ok: "art_ok h a d i w" and m: "sys_mkstemp t w = (k, name, w1)"
  shows "art_ok h a d i w1 \<and> k \<noteq> h"
proof (cases "k = - 1")
  case True
  from sys_mkstemp_fail [OF m True] ok have "art_ok h a d i w1" by auto
  moreover from ok have "0 \<le> h" by (auto simp: art_ok_def dest: fd_lookup_Some)
  ultimately show ?thesis using True by auto
next
  case False
  from sys_mkstemp_unfold [OF m False] obtain suffix rest where
    ins: "fd_install \<lparr>o_ino = length (inodes w), o_acc = O_RDWR, o_pos = 0\<rparr>
                (w\<lparr>mkstemp_supply := rest, inodes := inodes w @ [new_inode],
                    tmpdir := (tmpdir w)(name \<mapsto> length (inodes w))\<rparr>) = (k, w1)"
    by blast
  have "art_ok h a d i (w\<lparr>mkstemp_supply := rest, inodes := inodes w @ [new_inode],
                    tmpdir := (tmpdir w)(name \<mapsto> length (inodes w))\<rparr>)"
    using ok by (auto simp: art_ok_def fd_lookup_def iget_def nth_append split: if_splits)
  from fd_install_frame [OF this ins] show ?thesis by simp
qed

lemma read_all_off: "off_art k a w \<Longrightarrow> off_art k a (snd (read_all k' w))"
  by (auto simp: off_art_def read_all_def fd_lookup_def fail_def nth_list_update
      split: option.splits if_splits)

lemma sys_write_frame:
  assumes ok: "art_ok h a d i w" and ne: "k \<noteq> h" and off: "off_art k a w"
  shows "art_ok h a d i (snd (sys_write k buf w)) \<and> off_art k a (snd (sys_write k buf w))
         \<and> tmpdir (snd (sys_write k buf w)) = tmpdir w
         \<and> mirror (snd (sys_write k buf w)) = mirror w"
proof -
  from ok have h: "0 \<le> h" "nat h < length (fdt w)"
    by (auto simp: art_ok_def dest: fd_lookup_Some)
  show ?thesis
  proof (cases "fd_lookup w k")
    case None
    then have "snd (sys_write k buf w) = fail EBADF w" by (simp add: sys_write_def)
    moreover have "off_art k a (fail EBADF w) = off_art k a w"
      by (simp add: off_art_def fail_def fd_lookup_def)
    ultimately show ?thesis using ok off fail_frame [of h a d i EBADF w]
      by (simp add: fail_def)
  next
    case (Some e)
    with off have ea: "o_ino e \<noteq> a" by (simp add: off_art_def)
    from Some have k: "0 \<le> k" "nat k < length (fdt w)" by (auto dest: fd_lookup_Some)
    from k h ne have nk: "nat k \<noteq> nat h" by auto
    show ?thesis using ok Some ea k h nk
      by (auto simp: sys_write_def put_bytes_def Let_def art_ok_def off_art_def fd_lookup_def
          iget_def set_inode_def fail_def split: option.splits if_splits)
  qed
qed

lemma copy_loop_Nil [simp]: "copy_loop k [] w = w"
  by (simp add: copy_loop.simps [of k "[]" w])

lemma copy_loop_frame:
  "art_ok h a d i w \<Longrightarrow> k \<noteq> h \<Longrightarrow> off_art k a w \<Longrightarrow>
     art_ok h a d i (copy_loop k src w) \<and> off_art k a (copy_loop k src w)
     \<and> tmpdir (copy_loop k src w) = tmpdir w \<and> mirror (copy_loop k src w) = mirror w"
proof (induction k src w rule: copy_loop.induct)
  case (1 fout src w)
  show ?case
  proof (cases "src = []")
    case True
    with "1.prems" show ?thesis by simp
  next
    case False
    let ?w = "snd (sys_write fout (take 1024 src) w)"
    from sys_write_frame [OF "1.prems"(1) "1.prems"(2) "1.prems"(3), of "take 1024 src"]
    have s: "art_ok h a d i ?w" "off_art fout a ?w" "tmpdir ?w = tmpdir w" "mirror ?w = mirror w"
      by auto
    from "1.IH" [OF False s(1) "1.prems"(2) s(2)] s(3) s(4) False
    show ?thesis by (simp add: copy_loop.simps [of fout src w])
  qed
qed

lemma sys_fstat_frame:
  "art_ok h a d i (snd (snd (sys_fstat k w))) = art_ok h a d i w
   \<and> off_art k' a (snd (snd (sys_fstat k w))) = off_art k' a w
   \<and> tmpdir (snd (snd (sys_fstat k w))) = tmpdir w
   \<and> mirror (snd (snd (sys_fstat k w))) = mirror w"
  by (auto simp: sys_fstat_def art_ok_def off_art_def fd_lookup_def iget_def fail_def
      split: option.splits)

lemma sys_fchmod_frame:
  assumes ok: "art_ok h a d i w" and off: "off_art k a w"
  shows "art_ok h a d i (snd (sys_fchmod k m w)) \<and> tmpdir (snd (sys_fchmod k m w)) = tmpdir w
         \<and> mirror (snd (sys_fchmod k m w)) = mirror w"
  using ok off
  by (auto simp: sys_fchmod_def art_ok_def off_art_def fd_lookup_def iget_def fail_def
      set_inode_def split: option.splits if_splits)

lemma sys_close_dirs [simp]:
  "tmpdir (snd (sys_close k w)) = tmpdir w \<and> mirror (snd (sys_close k w)) = mirror w"
  by (auto simp: sys_close_def fail_def split: option.splits)

lemma read_all_dirs [simp]:
  "tmpdir (snd (read_all k w)) = tmpdir w \<and> mirror (snd (read_all k w)) = mirror w"
  by (auto simp: read_all_def fail_def split: option.splits)

lemma sys_mkstemp_fail_dirs:
  assumes m: "sys_mkstemp t w = (k, name, w1)" and k: "k = - 1"
  shows "tmpdir w1 = tmpdir w \<and> mirror w1 = mirror w \<and> inodes w1 = inodes w"
  using sys_mkstemp_fail [OF m k] by (auto simp: fail_def)

lemma temp_copy_frame:
  assumes ok: "art_ok h a d i w" and t: "temp_copy P file w = (r, w')"
  shows "art_ok h a d i w' \<and> mirror w' = mirror w
         \<and> (case r of None \<Rightarrow> tmpdir w' = tmpdir w
             | Some name \<Rightarrow> tmpdir w name = None \<and> (\<exists>n. tmpdir w' = (tmpdir w)(name \<mapsto> n)))"
proof -
  obtain fin w1 where o: "sys_openat file O_RDONLY w = (fin, w1)" by fastforce
  from sys_openat_frame [OF ok o] have ok1: "art_ok h a d i w1" and fin: "fin \<noteq> h"
    and d1: "tmpdir w1 = tmpdir w" "mirror w1 = mirror w" by auto
  show ?thesis
  proof (cases "fin = - 1")
    case True
    with t o have "r = None" "w' = w1" by (auto simp: temp_copy_def)
    with ok1 d1 show ?thesis by simp
  next
    case False
    obtain fout res w2 where m: "sys_mkstemp (tmp_template P) w1 = (fout, res, w2)"
      by (cases "sys_mkstemp (tmp_template P) w1") auto
    from sys_mkstemp_frame [OF ok1 m] have ok2: "art_ok h a d i w2" and fout: "fout \<noteq> h"
      by auto
    show ?thesis
    proof (cases "fout = - 1")
      case True
      with t o m False have r: "r = None" and w': "w' = snd (sys_close fin w2)"
        by (auto simp: temp_copy_def)
      from sys_close_frame [OF ok2 fin] sys_mkstemp_fail_dirs [OF m True] d1 r w'
      show ?thesis by simp
    next
      case fo: False
      from sys_mkstemp_new [OF m fo] have
        lk: "fd_lookup w2 fout = Some \<lparr>o_ino = length (inodes w1), o_acc = O_RDWR, o_pos = 0\<rparr>"
        and nm: "tmpdir w1 res = None"
        and td: "tmpdir w2 = (tmpdir w1)(res \<mapsto> length (inodes w1))"
        and mi: "mirror w2 = mirror w1"
        by (auto simp: art_ok_def)
      from ok1 have "a < length (inodes w1)"
        by (auto simp: art_ok_def iget_def split: if_splits)
      with lk have off2: "off_art fout a w2" by (simp add: off_art_def)
      obtain src w3 where rd: "read_all fin w2 = (src, w3)" by fastforce
      have ok3: "art_ok h a d i w3" using read_all_frame [OF ok2 fin] rd by simp
      have off3: "off_art fout a w3" using read_all_off [OF off2, of fin] rd by simp
      have d3: "tmpdir w3 = tmpdir w2" "mirror w3 = mirror w2"
        using read_all_dirs [of fin w2] rd by auto
      let ?w4 = "copy_loop fout src w3"
      from copy_loop_frame [OF ok3 fout off3, of src] have ok4: "art_ok h a d i ?w4"
        and off4: "off_art fout a ?w4" and d4: "tmpdir ?w4 = tmpdir w3" "mirror ?w4 = mirror w3"
        by auto
      obtain code st w5 where fs: "sys_fstat fin ?w4 = (code, st, w5)"
        by (cases "sys_fstat fin ?w4") auto
      from sys_fstat_frame [of h a d i fin ?w4 fout] fs ok4 off4 d4
      have ok5: "art_ok h a d i w5" and off5: "off_art fout a w5"
        and d5: "tmpdir w5 = tmpdir w3" "mirror w5 = mirror w3" by auto
      define w6 where "w6 = (case st of None \<Rightarrow> w5
                      | Some s \<Rightarrow>
                          (if code = - 1 then w5
                           else snd (sys_fchmod fout (st_mode s AND (S_IRUSR OR S_IXUSR)) w5)))"
      have ok6: "art_ok h a d i w6 \<and> tmpdir w6 = tmpdir w3 \<and> mirror w6 = mirror w3"
        using ok5 d5 sys_fchmod_frame [OF ok5 off5]
        by (auto simp: w6_def split: option.splits)
      have fin': "w' = snd (sys_close fout (snd (sys_close fin w6)))" and r: "r = Some res"
        using t o m False fo rd fs by (auto simp: temp_copy_def Let_def w6_def)
      have "art_ok h a d i (snd (sys_close fin w6))"
        using sys_close_frame [OF _ fin] ok6 by blast
      from sys_close_frame [OF this fout] have "art_ok h a d i w'" by (simp add: fin')
      moreover have "tmpdir w' = tmpdir w3" "mirror w' = mirror w3"
        using ok6 by (simp_all add: fin')
      ultimately show ?thesis using r nm td mi d3 d1 by auto
    qed
  qed
qed

lemma feed_stdin_frame:
  assumes ok: "art_ok h a d i w"
  shows "art_ok h a d i (snd (feed_stdin p w)) \<and> tmpdir (snd (feed_stdin p w)) = tmpdir w
         \<and> mirror (snd (feed_stdin p w)) = mirror w
         \<and> exec_log (snd (feed_stdin p w)) = exec_log w"
proof (cases p)
  case None
  with ok show ?thesis by (simp add: feed_stdin_def)
next
  case (Some rel)
  obtain k w1 where o: "sys_openat rel O_RDONLY w = (k, w1)" by fastforce
  from sys_openat_frame [OF ok o] have ok1: "art_ok h a d i w1" and k: "k \<noteq> h"
    and d1: "tmpdir w1 = tmpdir w" "mirror w1 = mirror w" by auto
  have l1: "exec_log w1 = exec_log w"
    using o by (auto simp: sys_openat_def Let_def fail_def fd_install_def
        split: option.splits if_splits)
  have l2: "exec_log (snd (read_all k w1)) = exec_log w1"
    by (auto simp: read_all_def fail_def split: option.splits)
  have "snd (feed_stdin p w) = (if k < 0 then w1 else snd (read_all k w1))"
    by (simp add: feed_stdin_def Some o split: prod.splits)
  with ok1 d1 l1 l2 read_all_frame [OF ok1 k] show ?thesis by simp
qed

lemma child_output_capture:
  assumes ok: "art_ok h a (art_fd a 0) i w" and empty: "i_data i = []" and h: "h \<noteq> 0"
  shows "art_ok h a (art_fd a (length bytes)) (i\<lparr>i_data := bytes\<rparr>) (child_output h bytes w)
         \<and> tmpdir (child_output h bytes w) = tmpdir w
         \<and> mirror (child_output h bytes w) = mirror w
         \<and> exec_log (child_output h bytes w) = exec_log w"
proof (cases "bytes = []")
  case True
  from empty have "i\<lparr>i_data := []\<rparr> = i" by simp
  with True ok show ?thesis by (simp add: child_output_def)
next
  case False
  from ok have hh: "0 \<le> h" "nat h < length (fdt w)" "a < length (inodes w)"
    by (auto simp: art_ok_def iget_def dest: fd_lookup_Some split: if_splits)
  with ok empty False h show ?thesis
    by (auto simp: child_output_def put_bytes_def art_ok_def art_fd_def Let_def wants_write_def
        set_inode_def resize_def fd_lookup_def iget_def)
qed

lemma execute_program_capture:
  assumes ok: "art_ok h a (art_fd a 0) i w" and empty: "i_data i = []" and h: "h \<noteq> 0"
    and e: "execute_program X file args h path_in w = (code, w')"
  shows "art_ok h a (art_fd a (length (snd (X (fsview w) file args (stdin_bytes w path_in)))))
           (i\<lparr>i_data := snd (X (fsview w) file args (stdin_bytes w path_in))\<rparr>) w'
         \<and> tmpdir w' = tmpdir w \<and> mirror w' = mirror w
         \<and> exec_log w' = exec_log w @
              [\<lparr>x_file = file, x_args = args, x_out = h, x_path_in = path_in\<rparr>]"
proof -
  obtain s wf where f: "feed_stdin path_in w = (s, wf)" by fastforce
  from feed_stdin_result [OF f] have s: "s = stdin_bytes w path_in" by simp
  from feed_stdin_frame [OF ok, of path_in] f have okf: "art_ok h a (art_fd a 0) i wf"
    and df: "tmpdir wf = tmpdir w" "mirror wf = mirror w" "exec_log wf = exec_log w" by auto
  obtain status bytes where x: "X (fsview w) file args s = (status, bytes)" by fastforce
  let ?w2 = "child_output h bytes wf"
  have w': "w' = ?w2\<lparr>exec_log := exec_log ?w2 @
                  [\<lparr>x_file = file, x_args = args, x_out = h, x_path_in = path_in\<rparr>]\<rparr>"
    using e f x by (auto simp: execute_program_def Let_def split: option.splits)
  from child_output_capture [OF okf empty h, of bytes] df x s w'
  show ?thesis by simp
qed

lemma unlink_fresh:
  assumes "tmpdir w name = None" and "tmpdir w2 = (tmpdir w)(name \<mapsto> n)"
  shows "tmpdir (snd (sys_unlink name w2)) = tmpdir w"
  using assms by (auto simp: sys_unlink_def fun_eq_iff)

lemma sys_unlink_dirs [simp]:
  "mirror (snd (sys_unlink name w)) = mirror w \<and> inodes (snd (sys_unlink name w)) = inodes w
   \<and> exec_log (snd (sys_unlink name w)) = exec_log w"
  by (auto simp: sys_unlink_def fail_def split: option.splits)

lemma program_external_capture:
  assumes ok: "art_ok h a (art_fd a 0) i w" and empty: "i_data i = []" and h: "h \<noteq> 0"
    and pf: "p_func prog = F_program_external"
  shows "art_ok h a (art_fd a (length (program_stdout P X prog file w)))
           (i\<lparr>i_data := program_stdout P X prog file w\<rparr>)
           (snd (program_external P X prog file h w))
         \<and> tmpdir (snd (program_external P X prog file h w)) = tmpdir w
         \<and> mirror (snd (program_external P X prog file h w)) = mirror w"
proof (cases "p_args prog \<noteq> None \<and> p_filearg prog \<noteq> None")
  case False
  let ?f = "if p_filter prog \<and> p_filearg prog = None then Some file else None"
  obtain code w2 where e: "execute_program X (p_path prog) (p_args prog) h ?f w = (code, w2)"
    by fastforce
  have w': "snd (program_external P X prog file h w) = w2"
    using False e by (auto simp: program_external_def Let_def)
  have b: "program_stdout P X prog file w
      = snd (X (fsview w) (p_path prog) (p_args prog) (stdin_bytes w ?f))"
    using False by (auto simp: program_stdout_def pf Let_def)
  from execute_program_capture [OF ok empty h e] show ?thesis by (simp add: w' b)
next
  case True
  obtain tmp w1 where t: "temp_copy P file w = (tmp, w1)" by fastforce
  from temp_copy_frame [OF ok t] have ok1: "art_ok h a (art_fd a 0) i w1"
    and m1: "mirror w1 = mirror w"
    and td: "case tmp of None \<Rightarrow> tmpdir w1 = tmpdir w
             | Some name \<Rightarrow> tmpdir w name = None \<and> (\<exists>n. tmpdir w1 = (tmpdir w)(name \<mapsto> n))"
    by auto
  let ?args = "subst_filearg (p_args prog) (p_filearg prog) tmp"
  let ?f = "if p_filter prog \<and> p_filearg prog = None then Some file else None"
  obtain code w2 where e: "execute_program X (p_path prog) ?args h ?f w1 = (code, w2)"
    by fastforce
  have b: "program_stdout P X prog file w
      = snd (X (fsview w1) (p_path prog) ?args (stdin_bytes w1 ?f))"
    using True t by (auto simp: program_stdout_def pf Let_def)
  from execute_program_capture [OF ok1 empty h e]
  have ok2: "art_ok h a (art_fd a (length (program_stdout P X prog file w)))
           (i\<lparr>i_data := program_stdout P X prog file w\<rparr>) w2"
    and d2: "tmpdir w2 = tmpdir w1" "mirror w2 = mirror w1" by (simp_all add: b)
  show ?thesis
  proof (cases tmp)
    case None
    have "snd (program_external P X prog file h w) = w2"
      using True t e None by (auto simp: program_external_def Let_def)
    with ok2 d2 td m1 None show ?thesis by simp
  next
    case (Some name)
    have w': "snd (program_external P X prog file h w) = snd (sys_unlink name w2)"
      using True t e Some by (auto simp: program_external_def Let_def)
    from td Some d2 obtain n where "tmpdir w name = None" "tmpdir w2 = (tmpdir w)(name \<mapsto> n)"
      by auto
    from unlink_fresh [OF this] ok2 d2 m1 show ?thesis by (simp add: w')
  qed
qed

lemma program_shell_capture:
  assumes ok: "art_ok h a (art_fd a 0) i w" and empty: "i_data i = []" and h: "h \<noteq> 0"
    and pf: "p_func prog = F_program_shell"
  shows "art_ok h a (art_fd a (length (program_stdout P X prog file w)))
           (i\<lparr>i_data := program_stdout P X prog file w\<rparr>)
           (snd (program_shell P X prog file h w))
         \<and> tmpdir (snd (program_shell P X prog file h w)) = tmpdir w
         \<and> mirror (snd (program_shell P X prog file h w)) = mirror w"
proof -
  obtain tmp w1 where t: "temp_copy P file w = (tmp, w1)" by fastforce
  from temp_copy_frame [OF ok t] have ok1: "art_ok h a (art_fd a 0) i w1"
    and m1: "mirror w1 = mirror w"
    and td: "case tmp of None \<Rightarrow> tmpdir w1 = tmpdir w
             | Some name \<Rightarrow> tmpdir w name = None \<and> (\<exists>n. tmpdir w1 = (tmpdir w)(name \<mapsto> n))"
    by auto
  show ?thesis
  proof (cases tmp)
    case None
    have "snd (program_shell P X prog file h w) = w1"
      using t None by (simp add: program_shell_def)
    moreover have "program_stdout P X prog file w = []"
      using t None by (simp add: program_stdout_def pf)
    moreover from empty have "i\<lparr>i_data := []\<rparr> = i" by simp
    ultimately show ?thesis using ok1 m1 td None by simp
  next
    case (Some name)
    obtain code w2 where
      e: "execute_program X (Some name) (Some [Some name]) h None w1 = (code, w2)"
      by fastforce
    have w': "snd (program_shell P X prog file h w) = snd (sys_unlink name w2)"
      using t Some e by (simp add: program_shell_def)
    have b: "program_stdout P X prog file w
        = snd (X (fsview w1) (Some name) (Some [Some name]) None)"
      using t Some by (simp add: program_stdout_def pf)
    from execute_program_capture [OF ok1 empty h e]
    have ok2: "art_ok h a (art_fd a (length (program_stdout P X prog file w)))
           (i\<lparr>i_data := program_stdout P X prog file w\<rparr>) w2"
      and d2: "tmpdir w2 = tmpdir w1" "mirror w2 = mirror w1"
      by (simp_all add: b stdin_bytes_def)
    from td Some d2 obtain n where "tmpdir w name = None" "tmpdir w2 = (tmpdir w)(name \<mapsto> n)"
      by auto
    from unlink_fresh [OF this] ok2 d2 m1 show ?thesis by (simp add: w')
  qed
qed

lemma run_script_capture:
  assumes m: "sys_mkstemp (tmp_template P) w = (h, name, wm)" and pos: "0 < h"
  shows "fst (run_script P X rel pr fi w) = h
         \<and> fst (snd (run_script P X rel pr fi w)) = map_option (\<lambda>i. i\<lparr>direct_io := True\<rparr>) fi
         \<and> art_ok h (length (inodes w))
              (art_fd (length (inodes w))
                 (length (program_stdout P X (program pr) rel (snd (sys_unlink name wm)))))
              (new_inode\<lparr>i_data := program_stdout P X (program pr) rel (snd (sys_unlink name wm))\<rparr>)
              (snd (snd (run_script P X rel pr fi w)))
         \<and> tmpdir (snd (snd (run_script P X rel pr fi w))) = tmpdir w
         \<and> mirror (snd (snd (run_script P X rel pr fi w))) = mirror w"
proof -
  let ?a = "length (inodes w)"
  let ?wu = "snd (sys_unlink name wm)"
  from pos have k: "h \<noteq> - 1" "h \<noteq> 0" by auto
  from sys_mkstemp_new [OF m k(1)] have okm: "art_ok h ?a (art_fd ?a 0) new_inode wm"
    and nm: "tmpdir w name = None" and td: "tmpdir wm = (tmpdir w)(name \<mapsto> ?a)"
    and mi: "mirror wm = mirror w"
    by (auto simp: art_fd_def)
  have oku: "art_ok h ?a (art_fd ?a 0) new_inode ?wu" using okm by simp
  have tu: "tmpdir ?wu = tmpdir w" by (rule unlink_fresh [OF nm td])
  have mu: "mirror ?wu = mirror w" using mi by simp
  have e: "i_data new_inode = []" by (simp add: new_inode_def)
  let ?w3 = "snd (call_program_func P X (p_func (program pr)) (program pr) rel h ?wu)"
  have r: "run_script P X rel pr fi w = (h, map_option (\<lambda>i. i\<lparr>direct_io := True\<rparr>) fi, ?w3)"
    using m pos by (simp add: run_script_def Let_def)
  have "art_ok h ?a (art_fd ?a (length (program_stdout P X (program pr) rel ?wu)))
          (new_inode\<lparr>i_data := program_stdout P X (program pr) rel ?wu\<rparr>) ?w3
        \<and> tmpdir ?w3 = tmpdir ?wu \<and> mirror ?w3 = mirror ?wu"
  proof (cases "p_func (program pr)")
    case F_program_shell
    from program_shell_capture [OF oku e k(2) F_program_shell, of P X "rel"] F_program_shell
    show ?thesis by simp
  next
    case F_program_external
    from program_external_capture [OF oku e k(2) F_program_external, of P X "rel"]
      F_program_external
    show ?thesis by simp
  qed
  with r tu mu show ?thesis by simp
qed

lemma mk_ex:
  "sys_mkstemp (tmp_template (P_ex l)) w_ex
     = (3, ''/dev/shm/sfs.aaaaaa'', snd (snd (sys_mkstemp (tmp_template (P_ex l)) w_ex)))"
  by (simp add: sys_defs const_defs ex_defs Let_def prod_eq_iff)


lemma art_ok_cong:
  "fdt w' = fdt w \<Longrightarrow> inodes w' = inodes w \<Longrightarrow> art_ok h a d i w' = art_ok h a d i w"
  by (simp add: art_ok_def fd_lookup_def iget_def)

lemmas run_defs = sfs_open_def run_script_def program_external_def subst_filearg_def
  test_true_def test_false_def fi_ro_def


lemma opened_fh: "fh fi_opened = 0x7F0000001000"
  by (simp add: fi_opened_def run_defs sys_defs const_defs ex_defs Let_def)

lemma opened_heap:
  "heap w_opened 0x7F0000001000 = Some \<lparr>fs_type = T_SCRIPT, file_handle = 3, filename = ''s''\<rparr>"
  by (simp add: w_opened_def run_defs sys_defs const_defs ex_defs Let_def)



lemma opened_fh_fd: "fd_of_fh (fh fi_opened) = 4096"
  by (simp add: fi_opened_def fd_of_fh_def run_defs sys_defs const_defs ex_defs Let_def)

lemma fd_lookup_errno: "fd_lookup (w\<lparr>errno := e\<rparr>) k = fd_lookup w k"
  by (simp add: fd_lookup_def)

lemma fd_of_fh_ex: "fd_of_fh 0x7F0000001000 = 4096"
  by (simp add: fd_of_fh_def)

lemma opened_fd_none: "fd_lookup w_opened 4096 = None"
  by (simp add: w_opened_def run_defs sys_defs const_defs ex_defs Let_def)

lemma handle_ops_independent:
  "sfs_chmod P X None mode (Some i) w = sfs_chmod P' X' None mode (Some i) w
   \<and> sfs_truncate P X None sz (Some i) w = sfs_truncate P' X' None sz (Some i) w
   \<and> sfs_utimens P X None ts (Some i) w = sfs_utimens P' X' None ts (Some i) w"
  by (simp add: sfs_chmod_def sfs_truncate_def sfs_utimens_def)



lemma opened_log:
  "exec_log w_opened = [\<lparr>x_file = Some ''/bin/b'',
       x_args = Some [Some ''/bin/b'', Some ''/dev/shm/sfs.bbbbbb''], x_out = 3,
       x_path_in = None\<rparr>]"
  by (simp add: w_opened_def run_defs sys_defs const_defs ex_defs Let_def)


lemmas cmd_defs = ex_unreadable_def w_unreadable_def X_ok_def ex_cmd_test_def ex_cmd_proc_def
  P_cmd_def test_program_def

subsection \<open>The argument array of the test and of the program\<close>

lemma log_openat [simp]: "exec_log (snd (sys_openat rel fl w)) = exec_log w"
  by (auto simp: sys_openat_def Let_def fail_def fd_install_def split: option.splits)

lemma log_read_all [simp]: "exec_log (snd (read_all k w)) = exec_log w"
  by (auto simp: read_all_def fail_def split: option.splits)

lemma log_close [simp]: "exec_log (snd (sys_close k w)) = exec_log w"
  by (auto simp: sys_close_def fail_def split: option.splits)

lemma log_write [simp]: "exec_log (snd (sys_write k buf w)) = exec_log w"
  by (auto simp: sys_write_def put_bytes_def fail_def set_inode_def Let_def split: option.splits)

lemma log_fstat [simp]: "exec_log (snd (snd (sys_fstat k w))) = exec_log w"
  by (auto simp: sys_fstat_def fail_def split: option.splits)

lemma log_fchmod [simp]: "exec_log (snd (sys_fchmod k m w)) = exec_log w"
  by (auto simp: sys_fchmod_def fail_def set_inode_def split: option.splits)

lemma log_mkstemp [simp]: "exec_log (snd (snd (sys_mkstemp t w))) = exec_log w"
  by (auto simp: sys_mkstemp_def Let_def fail_def fd_install_def
      split: list.splits sum.splits prod.splits)

lemma log_copy_loop [simp]: "exec_log (copy_loop k src w) = exec_log w"
proof (induction k src w rule: copy_loop.induct)
  case (1 fout src w)
  show ?case
  proof (cases "src = []")
    case True
    then show ?thesis by simp
  next
    case False
    with "1.IH" [OF False] show ?thesis
      by (simp add: copy_loop.simps [of fout src w])
  qed
qed

lemma log_temp_copy: "exec_log (snd (temp_copy P file w)) = exec_log w"
proof -
  obtain fin w1 where o: "sys_openat file O_RDONLY w = (fin, w1)" by fastforce
  then have l1: "exec_log w1 = exec_log w" using log_openat [of "file" O_RDONLY w] by simp
  obtain fout res w2 where m: "sys_mkstemp (tmp_template P) w1 = (fout, res, w2)"
    by (cases "sys_mkstemp (tmp_template P) w1") auto
  then have l2: "exec_log w2 = exec_log w1" using log_mkstemp [of "tmp_template P" w1] by simp
  obtain src w3 where r: "read_all fin w2 = (src, w3)" by fastforce
  then have l3: "exec_log w3 = exec_log w2" using log_read_all [of fin w2] by simp
  obtain code st w5 where f: "sys_fstat fin (copy_loop fout src w3) = (code, st, w5)"
    by (cases "sys_fstat fin (copy_loop fout src w3)") auto
  then have l5: "exec_log w5 = exec_log w3"
    using log_fstat [of fin "copy_loop fout src w3"] by simp
  show ?thesis
    using o m r f l1 l2 l3 l5
    by (simp add: temp_copy_def Let_def split: option.splits)
qed

lemma log_feed_stdin [simp]: "exec_log (snd (feed_stdin p w)) = exec_log w"
proof (cases p)
  case None
  then show ?thesis by (simp add: feed_stdin_def)
next
  case (Some rel)
  obtain k w1 where o: "sys_openat rel O_RDONLY w = (k, w1)" by fastforce
  then have l1: "exec_log w1 = exec_log w" using log_openat [of rel O_RDONLY w] by simp
  have "snd (feed_stdin p w) = (if k < 0 then w1 else snd (read_all k w1))"
    by (simp add: feed_stdin_def Some o split: prod.splits)
  with l1 show ?thesis by simp
qed

lemma log_child_output [simp]: "exec_log (child_output out bytes w) = exec_log w"
  by (auto simp: child_output_def put_bytes_def set_inode_def Let_def split: option.splits)

lemma log_execute_program:
  "exec_log (snd (execute_program X file args out path_in w))
     = exec_log w @ [\<lparr>x_file = file, x_args = args, x_out = out, x_path_in = path_in\<rparr>]"
proof -
  obtain s wf where f: "feed_stdin path_in w = (s, wf)" by fastforce
  then have l: "exec_log wf = exec_log w" using log_feed_stdin [of path_in w] by simp
  obtain status bytes where x: "X (fsview w) file args s = (status, bytes)" by fastforce
  show ?thesis
    by (cases status) (simp_all add: execute_program_def f x l Let_def)
qed

lemma test_program_argv:
  "exec_log (snd (test_program X t file w))
     = exec_log w @ [\<lparr>x_file = t_path t,
                      x_args = subst_filearg (t_args t) (t_filearg t) (Some file),
                      x_out = 0, x_path_in = (if t_filter t then Some file else None)\<rparr>]
   \<and> (t_args t = Some as \<and> t_filearg t = Some k \<and> k < length as \<longrightarrow>
        subst_filearg (t_args t) (t_filearg t) (Some file) = Some (as[k := Some file])
        \<and> as[k := Some file] ! k = Some file)"
proof -
  let ?args = "subst_filearg (t_args t) (t_filearg t) (Some file)"
  let ?f = "if t_filter t then Some file else None"
  obtain code w1 where e: "execute_program X (t_path t) ?args 0 ?f w = (code, w1)"
    by fastforce
  have "snd (test_program X t file w) = w1" by (simp add: test_program_def e)
  moreover have "exec_log w1 = exec_log w @ [\<lparr>x_file = t_path t, x_args = ?args,
      x_out = 0, x_path_in = ?f\<rparr>]"
    using log_execute_program [of X "t_path t" ?args 0 ?f w] e by simp
  ultimately show ?thesis by (simp add: subst_filearg_def)
qed

lemma program_external_argv:
  assumes ok: "art_ok h a (art_fd a 0) i w" and empty: "i_data i = []" and h: "h \<noteq> 0"
    and args: "p_args prog = Some as" and slot: "p_filearg prog = Some k"
    and t: "temp_copy P file w = (Some tmp, w1)"
  shows "exec_log (snd (program_external P X prog file h w))
           = exec_log w @ [\<lparr>x_file = p_path prog, x_args = Some (as[k := Some tmp]),
                            x_out = h, x_path_in = None\<rparr>]
         \<and> tmpdir w tmp = None \<and> tmpdir w1 tmp \<noteq> None
         \<and> tmpdir (snd (program_external P X prog file h w)) tmp = None"
proof -
  from temp_copy_frame [OF ok t] have ok1: "art_ok h a (art_fd a 0) i w1"
    and fresh: "tmpdir w tmp = None" and made: "\<exists>n. tmpdir w1 = (tmpdir w)(tmp \<mapsto> n)"
    by auto
  have l1: "exec_log w1 = exec_log w" using log_temp_copy [of P "file" w] t by simp
  obtain code w2 where e: "execute_program X (p_path prog) (Some (as[k := Some tmp])) h None w1
      = (code, w2)" by fastforce
  from execute_program_capture [OF ok1 empty h e]
  have l2: "exec_log w2 = exec_log w1 @ [\<lparr>x_file = p_path prog,
        x_args = Some (as[k := Some tmp]), x_out = h, x_path_in = None\<rparr>]"
    and d2: "tmpdir w2 = tmpdir w1" by auto
  have w': "snd (program_external P X prog file h w) = snd (sys_unlink tmp w2)"
    using args slot t e by (simp add: program_external_def subst_filearg_def Let_def)
  have "tmpdir (snd (sys_unlink tmp w2)) tmp = None"
    by (auto simp: sys_unlink_def fail_def split: option.splits)
  with l1 l2 fresh made show ?thesis by (auto simp: w')
qed

section \<open>Properties of the operations\<close>

lemma find_split:
  "find Q xs = Some x \<Longrightarrow> \<exists>pre rest. xs = pre @ x # rest \<and> Q x \<and> (\<forall>q\<in>set pre. \<not> Q q)"
proof (induction xs)
  case Nil
  then show ?case by simp
next
  case (Cons a xs)
  show ?case
  proof (cases "Q a")
    case True
    with Cons.prems have "a = x" by simp
    with True have "a # xs = [] @ x # xs \<and> Q x \<and> (\<forall>q\<in>set []. \<not> Q q)" by simp
    then show ?thesis by blast
  next
    case False
    with Cons.prems have "find Q xs = Some x" by simp
    from Cons.IH [OF this] obtain pre rest
      where "xs = pre @ x # rest" "Q x" "\<forall>q\<in>set pre. \<not> Q q" by blast
    with False have "a # xs = (a # pre) @ x # rest \<and> Q x \<and> (\<forall>q\<in>set (a # pre). \<not> Q q)"
      by simp
    then show ?thesis by blast
  qed
qed

lemma find_first:
  "\<forall>q\<in>set pre. \<not> Q q \<Longrightarrow> Q x \<Longrightarrow> find Q (pre @ x # rest) = Some x"
  by (induction pre) auto

text \<open>
  C9. \<open>relative_path\<close> maps \<open>"/"\<close> to \<open>"."\<close> and every other path that begins with a
  slash to the same string without that slash; nothing else is changed.
\<close>

theorem relative_path_spec:
  "relative_path (Some ''/'') = Some ''.''
   \<and> (rest \<noteq> [] \<longrightarrow> relative_path (Some (CHR ''/'' # rest)) = Some rest)"
  by simp

theorem relative_path_spec_witness:
  "''x/../y'' \<noteq> [] \<and> relative_path (Some ''/x/../y'') = Some ''x/../y''"
  using relative_path_spec [of "''x/../y''"] by simp

text \<open>
  C4. \<open>get_script\<close> returns the first procedure, in list order, whose test matches,
  and no procedure when no test matches. When \<open>p1\<close> and \<open>p2\<close> both match, \<open>p1\<close>
  comes before \<open>p2\<close> and nothing before \<open>p1\<close> matches, the procedure returned is \<open>p1\<close>.
\<close>

theorem get_script_first_match:
  "(case fst (get_script X ps name w) of
      None \<Rightarrow> \<forall>q\<in>set ps. \<not> test_matches X name w q
    | Some p \<Rightarrow> \<exists>pre rest. ps = pre @ p # rest \<and> test_matches X name w p
                  \<and> (\<forall>q\<in>set pre. \<not> test_matches X name w q))
   \<and> (test_matches X name w p1 \<and> test_matches X name w p2
        \<and> (\<forall>q\<in>set pre. \<not> test_matches X name w q)
      \<longrightarrow> fst (get_script X (pre @ p1 # mid @ p2 # post) name w) = Some p1)"
proof -
  have f: "\<And>qs. fst (get_script X qs name w) = find (test_matches X name w) qs"
    using get_script_find [of X _ "name" w] by blast
  have a: "case find (test_matches X name w) ps of
        None \<Rightarrow> \<forall>q\<in>set ps. \<not> test_matches X name w q
      | Some p \<Rightarrow> \<exists>pre rest. ps = pre @ p # rest \<and> test_matches X name w p
                  \<and> (\<forall>q\<in>set pre. \<not> test_matches X name w q)"
  proof (cases "find (test_matches X name w) ps")
    case None
    then have "\<forall>q\<in>set ps. \<not> test_matches X name w q" by (simp add: find_None_iff)
    with None show ?thesis by simp
  next
    case (Some p)
    from find_split [OF Some] Some show ?thesis by simp
  qed
  have b: "test_matches X name w p1 \<and> test_matches X name w p2
        \<and> (\<forall>q\<in>set pre. \<not> test_matches X name w q)
      \<longrightarrow> find (test_matches X name w) (pre @ p1 # mid @ p2 # post) = Some p1"
    using find_first [of pre "test_matches X name w" p1 "mid @ p2 # post"] by blast
  from a b show ?thesis by (simp only: f)
qed

theorem get_script_first_match_witness:
  "fst (get_script X_ex [ex_proc ''/bin/a'' F_test_false, ex_proc ''/bin/b'' F_test_true,
                         ex_proc ''/bin/c'' F_test_true] ''s'' w_ex)
     = Some (ex_proc ''/bin/b'' F_test_true)"
  using get_script_first_match [where X = X_ex and ps = "[]" and name = "''s''" and w = w_ex
      and ?p1.0 = "ex_proc ''/bin/b'' F_test_true" and ?p2.0 = "ex_proc ''/bin/c'' F_test_true"
      and pre = "[ex_proc ''/bin/a'' F_test_false]" and mid = "[]" and post = "[]"]
  by (simp add: test_matches_def ex_proc_def ex_test_def test_true_def test_false_def)

text \<open>
  C8. For a regular mirror file that the classifier matches, \<open>sfs_getattr\<close> succeeds and
  returns the mirror's mode with the three write bits cleared, and the mirror's time stamps;
  for a file that is not regular or that no procedure matches it returns the mirror's
  \<open>stat\<close> as it is.
\<close>

theorem sfs_getattr_mode:
  assumes rel: "relative_path (Some path) = Some rel"
    and ml: "mirror_lookup w rel = Some (n, i)"
  shows "(S_ISREG (i_mode i) \<and> fst (get_script X (procs P) rel w) \<noteq> None \<longrightarrow>
           (\<exists>st fi' w'. sfs_getattr P X (Some path) fi w = (Ret 0, Some st, fi', w')
              \<and> st_mode st = i_mode i AND NOT W_BITS
              \<and> st_atim st = i_atime i \<and> st_mtim st = i_mtime i))
       \<and> (\<not> (S_ISREG (i_mode i) \<and> fst (get_script X (procs P) rel w) \<noteq> None) \<longrightarrow>
           (\<exists>fi' w'. sfs_getattr P X (Some path) fi w = (Ret 0, Some (stat_of i), fi', w')))"
proof -
  have st: "sys_fstatat rel w = (0, Some (stat_of i), w)"
    using ml by (simp add: sys_fstatat_def)
  obtain pr w2 where g: "get_script X (procs P) rel w = (pr, w2)"
    and pr: "pr = fst (get_script X (procs P) rel w)"
    by (rule get_script_cases)
  show ?thesis
  proof (cases "S_ISREG (i_mode i)")
    case False
    then show ?thesis
      by (simp add: sfs_getattr_def rel st after_def stat_of_def)
  next
    case True
    show ?thesis
    proof (cases pr)
      case None
      with True g pr show ?thesis
        by (simp add: sfs_getattr_def rel st after_def stat_of_def)
    next
      case (Some p)
      obtain h fi1 w3 where r: "run_script P X rel p fi w2 = (h, fi1, w3)"
        by (cases "run_script P X rel p fi w2") auto
      obtain c rs w4 where f: "sys_fstat h w3 = (c, rs, w4)"
        by (cases "sys_fstat h w3") auto
      from True g pr Some r f show ?thesis
        by (auto simp: sfs_getattr_def rel st after_def stat_of_def Let_def split: option.splits)
    qed
  qed
qed

theorem sfs_getattr_mode_witness:
  "fst (sfs_getattr (P_ex False) X_ex (Some ''/s'') None w_ex) = Ret 0
   \<and> map_option st_mode (fst (snd (sfs_getattr (P_ex False) X_ex (Some ''/s'') None w_ex)))
       = Some (i_mode ex_file AND NOT W_BITS)"
  using sfs_getattr_mode [where path = "''/s''" and rel = "''s''" and X = X_ex
      and P = "P_ex False" and w = w_ex and n = 1 and i = ex_file and fi = None]
  by (auto simp: P_ex_match w_ex_s ex_file_reg)

text \<open>
  C1, as amended. For every path the classifier matches, \<open>sfs_open\<close> with \<open>O_WRONLY\<close> or
  \<open>O_RDWR\<close> in the flags returns \<open>-EACCES\<close>; for every path that names a regular mirror
  file the classifier matches, \<open>sfs_truncate\<close> and \<open>sfs_utimens\<close> by path return
  \<open>-EACCES\<close>. The mirror and the temporary directory are the same after the refused call.
\<close>

theorem script_write_refused:
  assumes rel: "relative_path (Some path) = Some rel"
    and m: "fst (get_script X (procs P) rel w) \<noteq> None"
  shows "(flags fi AND O_WRONLY \<noteq> 0 \<or> flags fi AND O_RDWR \<noteq> 0 \<longrightarrow>
            (\<exists>w'. sfs_open P X L path fi w = (Ret (- EACCES), fi, w') \<and> fsview w' = fsview w))
       \<and> (mirror_lookup w rel = Some (n, i) \<and> S_ISREG (i_mode i) \<longrightarrow>
            (\<exists>w'. sfs_truncate P X (Some path) sz hfi w = (Ret (- EACCES), w')
                     \<and> fsview w' = fsview w)
          \<and> (\<exists>w'. sfs_utimens P X (Some path) ts hfi w = (Ret (- EACCES), w')
                     \<and> fsview w' = fsview w))"
proof -
  obtain pr w2 where g: "get_script X (procs P) rel w = (pr, w2)"
    and fv: "fsview w2 = fsview w"
    and pr: "pr = fst (get_script X (procs P) rel w)"
    by (rule get_script_cases)
  from m pr obtain p where p: "pr = Some p" by auto
  have a: "flags fi AND O_WRONLY \<noteq> 0 \<or> flags fi AND O_RDWR \<noteq> 0 \<longrightarrow>
            (\<exists>w'. sfs_open P X L path fi w = (Ret (- EACCES), fi, w') \<and> fsview w' = fsview w)"
    using g p fv by (auto simp: sfs_open_def rel Let_def)
  have b: "mirror_lookup w rel = Some (n, i) \<and> S_ISREG (i_mode i) \<longrightarrow>
            (\<exists>w'. sfs_truncate P X (Some path) sz hfi w = (Ret (- EACCES), w')
                     \<and> fsview w' = fsview w)"
    using g p fv by (auto simp: sfs_truncate_def rel Let_def sys_fstatat_def stat_of_def)
  have c: "mirror_lookup w rel = Some (n, i) \<and> S_ISREG (i_mode i) \<longrightarrow>
            (\<exists>w'. sfs_utimens P X (Some path) ts hfi w = (Ret (- EACCES), w')
                     \<and> fsview w' = fsview w)"
    using g p fv by (auto simp: sfs_utimens_def rel Let_def sys_fstatat_def stat_of_def)
  from a b c show ?thesis by blast
qed

theorem script_write_refused_witness:
  "fst (sfs_open (P_ex False) X_ex 256 ''/s'' \<lparr>flags = O_WRONLY, fh = 0, direct_io = False\<rparr> w_ex)
     = Ret (- EACCES)
   \<and> fst (sfs_truncate (P_ex False) X_ex (Some ''/s'') 0 None w_ex) = Ret (- EACCES)
   \<and> fst (sfs_utimens (P_ex False) X_ex (Some ''/s'') ((1, 0), (2, 0)) None w_ex) = Ret (- EACCES)"
  using script_write_refused [where path = "''/s''" and rel = "''s''" and X = X_ex
      and P = "P_ex False" and w = w_ex and n = 1 and i = ex_file and L = 256
      and fi = "\<lparr>flags = O_WRONLY, fh = 0, direct_io = False\<rparr>" and sz = 0 and hfi = None
      and ts = "((1, 0), (2, 0))"]
  by (auto simp: P_ex_match w_ex_s ex_file_reg O_WRONLY_def)

text \<open>
  C1 as stated fails where the path the classifier matches is not a regular file: with
  the test \<open>always\<close> the directory \<open>d\<close> is matched, and \<open>sfs_utimens\<close> on it returns 0
  and changes the time stamps of the mirror directory.
\<close>

theorem utimens_directory_counterexample:
  "fst (get_script X_ex (procs (P_ex False)) ''d'' w_ex) = Some (ex_proc ''/bin/b'' F_test_true)
   \<and> fst (sfs_utimens (P_ex False) X_ex (Some ''/d'') ((1, 0), (2, 0)) None w_ex) = Ret 0
   \<and> mirror_lookup (snd (sfs_utimens (P_ex False) X_ex (Some ''/d'') ((1, 0), (2, 0)) None w_ex)) ''d''
       = Some (0, ex_dir\<lparr>i_atime := (1, 0), i_mtime := (2, 0)\<rparr>)
   \<and> ex_dir\<lparr>i_atime := (1, 0), i_mtime := (2, 0)\<rparr> \<noteq> ex_dir"
proof -
  have u: "sfs_utimens (P_ex False) X_ex (Some ''/d'') ((1, 0), (2, 0)) None w_ex
     = (Ret 0, set_inode 0 (ex_dir\<lparr>i_atime := (1, 0), i_mtime := (2, 0)\<rparr>) w_ex)"
    by (simp add: sfs_utimens_def sys_fstatat_def w_ex_d ex_dir_not_reg stat_of_def
        sys_utimensat_def after_def)
  have l: "mirror_lookup (set_inode 0 (ex_dir\<lparr>i_atime := (1, 0), i_mtime := (2, 0)\<rparr>) w_ex) ''d''
     = Some (0, ex_dir\<lparr>i_atime := (1, 0), i_mtime := (2, 0)\<rparr>)"
    by (simp add: mirror_lookup_def set_inode_def w_ex_def iget_def)
  have n: "ex_dir\<lparr>i_atime := (1, 0), i_mtime := (2, 0)\<rparr> \<noteq> ex_dir"
    by (simp add: ex_dir_def)
  show ?thesis by (simp add: u l n P_ex_match)
qed

text \<open>
  C2, as amended. For a regular mirror file the classifier matches, \<open>sfs_chmod\<close> by path
  with a mode that has a write bit does not fail: it applies the requested mode with the
  three write bits cleared and returns 0, so the mirror file ends without write bits.
\<close>

theorem sfs_chmod_script_strips_write:
  assumes rel: "relative_path (Some path) = Some rel"
    and ml: "mirror_lookup w rel = Some (n, i)"
    and reg: "S_ISREG (i_mode i)"
    and wr: "mode AND W_BITS \<noteq> 0"
    and m: "fst (get_script X (procs P) rel w) \<noteq> None"
  shows "\<exists>w'. sfs_chmod P X (Some path) mode fi w = (Ret 0, w')
           \<and> mirror_lookup w' rel = Some (n, chmod_inode (mode AND NOT W_BITS) i)
           \<and> i_mode (chmod_inode (mode AND NOT W_BITS) i) AND W_BITS = 0"
proof -
  obtain pr w2 where g: "get_script X (procs P) rel w = (pr, w2)"
    and fv: "fsview w2 = fsview w"
    and pr: "pr = fst (get_script X (procs P) rel w)"
    by (rule get_script_cases)
  from m pr obtain p where p: "pr = Some p" by auto
  have ml2: "mirror_lookup w2 rel = Some (n, i)"
    using mirror_lookup_fsview [OF fv] ml by simp
  have "sfs_chmod P X (Some path) mode fi w
      = (Ret 0, set_inode n (chmod_inode (mode AND NOT W_BITS) i) w2)"
    using g p reg wr
    by (simp add: sfs_chmod_def rel sys_fstatat_def ml stat_of_def sys_fchmodat_def ml2 after_def)
  moreover have "mirror_lookup (set_inode n (chmod_inode (mode AND NOT W_BITS) i) w2) rel
      = Some (n, chmod_inode (mode AND NOT W_BITS) i)"
    by (rule set_inode_lookup [OF ml2])
  moreover have "i_mode (chmod_inode (mode AND NOT W_BITS) i) AND W_BITS = 0"
    by (simp add: chmod_inode_def no_write_bits)
  ultimately show ?thesis by simp
qed

theorem sfs_chmod_script_strips_write_witness:
  "fst (sfs_chmod (P_ex False) X_ex (Some ''/s'') 0x1B6 None w_ex) = Ret 0
   \<and> mirror_lookup (snd (sfs_chmod (P_ex False) X_ex (Some ''/s'') 0x1B6 None w_ex)) ''s''
       = Some (1, chmod_inode (0x1B6 AND NOT W_BITS) ex_file)"
  using sfs_chmod_script_strips_write [where path = "''/s''" and rel = "''s''" and X = X_ex
      and P = "P_ex False" and w = w_ex and n = 1 and i = ex_file and mode = "0x1B6"
      and fi = None]
  by (auto simp: P_ex_match w_ex_s ex_file_reg W_BITS_def S_IWUSR_def S_IWGRP_def S_IWOTH_def)

text \<open>
  C2 as stated fails: on the regular file \<open>s\<close>, matched by the test \<open>always\<close>, a chmod
  to mode 0666 returns 0, not \<open>-EACCES\<close>.
\<close>

theorem sfs_chmod_script_counterexample:
  "mirror_lookup w_ex ''s'' = Some (1, ex_file) \<and> S_ISREG (i_mode ex_file)
   \<and> fst (get_script X_ex (procs (P_ex False)) ''s'' w_ex) = Some (ex_proc ''/bin/b'' F_test_true)
   \<and> (0x1B6 :: mode_t) AND W_BITS \<noteq> 0
   \<and> fst (sfs_chmod (P_ex False) X_ex (Some ''/s'') 0x1B6 None w_ex) = Ret 0
   \<and> fst (sfs_chmod (P_ex False) X_ex (Some ''/s'') 0x1B6 None w_ex) \<noteq> Ret (- EACCES)"
proof -
  have w: "(0x1B6 :: mode_t) AND W_BITS \<noteq> 0"
    by (simp add: W_BITS_def S_IWUSR_def S_IWGRP_def S_IWOTH_def)
  have "sfs_chmod (P_ex False) X_ex (Some ''/s'') 0x1B6 None w_ex
      = (Ret 0, set_inode 1 (chmod_inode (0x1B6 AND NOT W_BITS) ex_file) w_ex)"
    using w
    by (simp add: sfs_chmod_def sys_fstatat_def w_ex_s ex_file_reg stat_of_def P_ex_match
        sys_fchmodat_def after_def)
  then show ?thesis using w by (simp add: w_ex_s ex_file_reg P_ex_match EACCES_def)
qed

text \<open>
  C10, at an input where the code departs from it. The handle \<open>sfs_open\<close> makes for the
  script \<open>s\<close> holds the address of a \<open>FileStruct\<close> in \<open>fi->fh\<close>; the descriptor of the
  handle is 3. With a null path \<open>sfs_chmod\<close>, \<open>sfs_truncate\<close> and \<open>sfs_utimens\<close> pass
  \<open>fi->fh\<close> itself as the descriptor (here 4096, which is not open): each returns
  \<open>-EBADF\<close> and no file is changed. (None of the three consults the procedures on this
  path: \<open>handle_ops_independent\<close>.)
\<close>

theorem handle_ops_pass_pointer:
  "map_option file_handle (heap w_opened (fh fi_opened)) = Some 3
   \<and> fd_of_fh (fh fi_opened) = 4096
   \<and> fst (sfs_chmod (P_ex False) X_ex None 0x1B6 (Some fi_opened) w_opened) = Ret (- EBADF)
   \<and> inodes (snd (sfs_chmod (P_ex False) X_ex None 0x1B6 (Some fi_opened) w_opened))
       = inodes w_opened
   \<and> fst (sfs_truncate (P_ex False) X_ex None 0 (Some fi_opened) w_opened) = Ret (- EBADF)
   \<and> inodes (snd (sfs_truncate (P_ex False) X_ex None 0 (Some fi_opened) w_opened))
       = inodes w_opened
   \<and> fst (sfs_utimens (P_ex False) X_ex None ((1, 0), (2, 0)) (Some fi_opened) w_opened)
       = Ret (- EBADF)
   \<and> inodes (snd (sfs_utimens (P_ex False) X_ex None ((1, 0), (2, 0)) (Some fi_opened) w_opened))
       = inodes w_opened"
  by (simp add: opened_fh opened_heap fd_of_fh_ex opened_fd_none sfs_chmod_def
      sfs_truncate_def sfs_utimens_def sys_fchmod_def sys_ftruncate_def sys_futimens_def
      sys_close_def after_def fail_def fd_lookup_errno Let_def)

theorem handle_ops_pass_pointer_witness:
  "fst (sfs_truncate (P_ex False) X_ex None 0 (Some fi_opened) w_opened) \<noteq> Ret 0
   \<and> map_option file_handle (heap w_opened (fh fi_opened)) \<noteq> Some (fd_of_fh (fh fi_opened))"
  using handle_ops_pass_pointer by (auto simp: EBADF_def)




text \<open>
  C6. For a path the classifier matches, \<open>sfs_open\<close> returns \<open>-EACCES\<close> when the flags
  have \<open>O_WRONLY\<close> or \<open>O_RDWR\<close>, returns the negated \<open>errno\<close> when \<open>mkstemp\<close> gives no
  positive descriptor, and otherwise returns 0 with a handle of type \<open>T_SCRIPT\<close> on the
  artifact's descriptor, whatever the child does: the artifact holds what the child wrote.
  The allocation of the \<open>FileStruct\<close> is taken to succeed.
\<close>

theorem sfs_open_script:
  assumes rel: "relative_path (Some path) = Some rel"
    and g: "get_script X (procs P) rel w = (Some pr, w1)"
    and mk: "sys_mkstemp (tmp_template P) w1 = (h, name, wm)"
  shows "(flags fi AND O_WRONLY \<noteq> 0 \<or> flags fi AND O_RDWR \<noteq> 0 \<longrightarrow>
            fst (sfs_open P X L path fi w) = Ret (- EACCES))
       \<and> (flags fi AND O_WRONLY = 0 \<and> flags fi AND O_RDWR = 0 \<and> h \<le> 0 \<and> 0 \<le> errno wm \<longrightarrow>
            fst (sfs_open P X L path fi w) = Ret (- errno wm))
       \<and> (flags fi AND O_WRONLY = 0 \<and> flags fi AND O_RDWR = 0 \<and> 0 < h
          \<and> fst (sys_malloc (snd (snd (run_script P X rel pr (Some fi) w1)))) \<noteq> 0 \<longrightarrow>
            (\<exists>fi' w'. sfs_open P X L path fi w = (Ret 0, fi', w') \<and> fh fi' \<noteq> 0
               \<and> heap w' (fh fi') = Some \<lparr>fs_type = T_SCRIPT, file_handle = h,
                                           filename = take (L - 1) rel\<rparr>
               \<and> art_ok h (length (inodes w1))
                    (art_fd (length (inodes w1))
                       (length (program_stdout P X (program pr) rel (snd (sys_unlink name wm)))))
                    (new_inode\<lparr>i_data := program_stdout P X (program pr) rel
                                            (snd (sys_unlink name wm))\<rparr>) w'))"
proof -
  have a: "flags fi AND O_WRONLY \<noteq> 0 \<or> flags fi AND O_RDWR \<noteq> 0 \<longrightarrow>
            fst (sfs_open P X L path fi w) = Ret (- EACCES)"
    using g by (auto simp: sfs_open_def rel Let_def)
  have b: "flags fi AND O_WRONLY = 0 \<and> flags fi AND O_RDWR = 0 \<and> h \<le> 0 \<and> 0 \<le> errno wm \<longrightarrow>
            fst (sfs_open P X L path fi w) = Ret (- errno wm)"
    using g mk by (auto simp: sfs_open_def rel Let_def run_script_def)
  have c: "flags fi AND O_WRONLY = 0 \<and> flags fi AND O_RDWR = 0 \<and> 0 < h
          \<and> fst (sys_malloc (snd (snd (run_script P X rel pr (Some fi) w1)))) \<noteq> 0 \<longrightarrow>
            (\<exists>fi' w'. sfs_open P X L path fi w = (Ret 0, fi', w') \<and> fh fi' \<noteq> 0
               \<and> heap w' (fh fi') = Some \<lparr>fs_type = T_SCRIPT, file_handle = h,
                                           filename = take (L - 1) rel\<rparr>
               \<and> art_ok h (length (inodes w1))
                    (art_fd (length (inodes w1))
                       (length (program_stdout P X (program pr) rel (snd (sys_unlink name wm)))))
                    (new_inode\<lparr>i_data := program_stdout P X (program pr) rel
                                            (snd (sys_unlink name wm))\<rparr>) w')"
  proof (intro impI, elim conjE)
    assume ro: "flags fi AND O_WRONLY = 0" "flags fi AND O_RDWR = 0" and pos: "0 < h"
    let ?B = "program_stdout P X (program pr) rel (snd (sys_unlink name wm))"
    obtain rh rf wr where r0: "run_script P X rel pr (Some fi) w1 = (rh, rf, wr)"
      by (cases "run_script P X rel pr (Some fi) w1") auto
    assume "fst (sys_malloc (snd (snd (run_script P X rel pr (Some fi) w1)))) \<noteq> 0"
    then have ma: "fst (sys_malloc wr) \<noteq> 0" by (simp add: r0)
    obtain ad wa where sm: "sys_malloc wr = (ad, wa)" by fastforce
    with ma have ad: "ad \<noteq> 0" by simp
    from sm ad have wa: "fdt wa = fdt wr" "inodes wa = inodes wr"
      by (auto simp: sys_malloc_def split: list.splits if_splits)
    from run_script_capture [OF mk pos, of X "rel" pr "Some fi"] r0
    have rh: "rh = h"
      and rf: "rf = Some (fi\<lparr>direct_io := True\<rparr>)"
      and ok: "art_ok h (length (inodes w1)) (art_fd (length (inodes w1)) (length ?B))
        (new_inode\<lparr>i_data := ?B\<rparr>) wr" by auto
    have r: "run_script P X rel pr (Some fi) w1 = (h, Some (fi\<lparr>direct_io := True\<rparr>), wr)"
      using r0 rh rf by simp
    let ?w' = "wa\<lparr>heap := (heap wa)(ad \<mapsto>
                  \<lparr>fs_type = T_SCRIPT, file_handle = h, filename = take (L - 1) rel\<rparr>)\<rparr>"
    have o: "sfs_open P X L path fi w = (Ret 0, fi\<lparr>direct_io := True, fh := ad\<rparr>, ?w')"
      using g ro r pos sm ad by (simp add: sfs_open_def rel Let_def)
    have "art_ok h (length (inodes w1)) (art_fd (length (inodes w1)) (length ?B))
        (new_inode\<lparr>i_data := ?B\<rparr>) ?w'"
      using ok wa art_ok_cong [of ?w' wr] by simp
    with o ad show "\<exists>fi' w'. sfs_open P X L path fi w = (Ret 0, fi', w') \<and> fh fi' \<noteq> 0
               \<and> heap w' (fh fi') = Some \<lparr>fs_type = T_SCRIPT, file_handle = h,
                                           filename = take (L - 1) rel\<rparr>
               \<and> art_ok h (length (inodes w1))
                    (art_fd (length (inodes w1)) (length ?B)) (new_inode\<lparr>i_data := ?B\<rparr>) w'"
      by simp
  qed
  from a b c show ?thesis by blast
qed

theorem sfs_open_script_witness:
  "fst (sfs_open (P_ex False) X_ex 256 ''/s'' fi_ro w_ex) = Ret 0
   \<and> map_option fs_type (heap w_opened (fh fi_opened)) = Some T_SCRIPT
   \<and> fst (X_ex ([], Map.empty, Map.empty) None None None) = Some 1"
proof -
  have m: "fst (sys_malloc (snd (snd (run_script (P_ex False) X_ex ''s''
        (ex_proc ''/bin/b'' F_test_true) (Some fi_ro) w_ex)))) \<noteq> 0"
    by (simp add: run_defs sys_defs const_defs ex_defs Let_def)
  have f: "flags fi_ro AND O_WRONLY = 0" "flags fi_ro AND O_RDWR = 0"
    by (simp_all add: fi_ro_def O_RDONLY_def)
  from sfs_open_script [where path = "''/s''" and rel = "''s''" and X = X_ex
      and P = "P_ex False" and w = w_ex and fi = fi_ro and L = 256
      and pr = "ex_proc ''/bin/b'' F_test_true" and ?w1.0 = w_ex, OF _ P_ex_match mk_ex] m f
  show ?thesis by (auto simp: fi_opened_def w_opened_def X_ex_def)
qed




text \<open>
  C7, at an input where the code departs from it. The file \<open>s\<close> cannot be read and the
  command line \<open>/bin/b !\<close> is program and test. The test is run with the virtual path
  \<open>s\<close> in the slot and accepts; \<open>temp_copy\<close> fails; \<open>sfs_open\<close> still runs the program,
  with the null pointer in the slot, so the argument array the child gets ends before it.
  (Where \<open>temp_copy\<close> succeeds the slot holds the name of the new copy, which is unlinked
  after the call: \<open>program_external_argv\<close>; the test always gets the virtual path:
  \<open>test_program_argv\<close>.)
\<close>

theorem placeholder_unreadable_file:
  "fst (get_script X_ok (procs P_cmd) ''s'' w_unreadable) = Some ex_cmd_proc
   \<and> exec_log (snd (get_script X_ok (procs P_cmd) ''s'' w_unreadable))
       = [\<lparr>x_file = Some ''/bin/b'', x_args = Some [Some ''/bin/b'', Some ''s''],
           x_out = 0, x_path_in = None\<rparr>]
   \<and> fst (temp_copy P_cmd ''s'' w_unreadable) = None
   \<and> fst (sfs_open P_cmd X_ok 256 ''/s'' fi_ro w_unreadable) = Ret 0
   \<and> exec_log (snd (snd (sfs_open P_cmd X_ok 256 ''/s'' fi_ro w_unreadable)))
       = [\<lparr>x_file = Some ''/bin/b'', x_args = Some [Some ''/bin/b'', Some ''s''],
           x_out = 0, x_path_in = None\<rparr>,
          \<lparr>x_file = Some ''/bin/b'', x_args = Some [Some ''/bin/b'', None],
           x_out = 3, x_path_in = None\<rparr>]"
  by (simp add: run_defs cmd_defs sys_defs const_defs ex_defs Let_def)

theorem placeholder_unreadable_file_witness:
  "x_args (last (exec_log (snd (snd (sfs_open P_cmd X_ok 256 ''/s'' fi_ro w_unreadable)))))
     = Some [Some ''/bin/b'', None]
   \<and> x_args (hd (exec_log (snd (snd (sfs_open P_cmd X_ok 256 ''/s'' fi_ro w_unreadable)))))
     = Some [Some ''/bin/b'', Some ''s'']"
  using placeholder_unreadable_file by simp

end
